theory Spec2Isabelle
  imports Complex_Main "HOL-Library.Word"
begin

section \<open>Common data\<close>

text \<open>
  Audio samples and model scores are JavaScript numbers; the code only compares and
  copies them, so they are modelled as reals (NaN is not modelled). A tensor is
  modelled by its data.

  A string is its sequence of code units; the model has the code units below 256,
  which covers every literal of the code.

  A thrown JavaScript value is an instance of \<open>Error\<close> with its message; some
  other value that is neither \<open>null\<close> nor \<open>undefined\<close>, given by its
  \<open>.message\<close> (\<open>undefined\<close>, or a string) and by the text \<open>util.inspect\<close> prints
  for it; \<open>null\<close>; or \<open>undefined\<close>.
\<close>

type_synonym tensor = "real list"

datatype js_error =
    Error string
  | ThrownValue "string option" string
  | ThrownNull
  | ThrownUndefined

text \<open>
  The names an object literal inherits from \<open>Object.prototype\<close>: \<open>obj[name]\<close>
  finds a function under each of them (the prototype itself under \<open>__proto__\<close>),
  a truthy value, when \<open>obj\<close> has no property of its own with that name.
\<close>

definition object_prototype :: "string list" where
  "object_prototype =
     [''constructor'', ''__defineGetter__'', ''__defineSetter__'', ''hasOwnProperty'',
      ''__lookupGetter__'', ''__lookupSetter__'', ''isPrototypeOf'', ''propertyIsEnumerable'',
      ''toString'', ''valueOf'', ''__proto__'', ''toLocaleString'']"

text \<open>
  The TypeError of reading property \<open>prop\<close> from \<open>null\<close> or \<open>undefined\<close>
  (\<open>nothing\<close> is the name of the value read from).
\<close>

definition cannot_read :: "string \<Rightarrow> string \<Rightarrow> js_error" where
  "cannot_read nothing prop =
     Error (''Cannot read properties of '' @ nothing @ '' (reading '' @ [CHR 0x27] @ prop
            @ [CHR 0x27] @ '')'')"

text \<open>\<open>options.x || d\<close> for a numeric option: \<open>undefined\<close> and \<open>0\<close> are falsy.\<close>

definition or_default :: "'a::zero option \<Rightarrow> 'a \<Rightarrow> 'a" where
  "or_default opt d = (case opt of None \<Rightarrow> d | Some v \<Rightarrow> if v = 0 then d else v)"

text \<open>\<open>options.x || d\<close> for a string option: \<open>undefined\<close> and the empty string are falsy.\<close>

definition or_default_str :: "string option \<Rightarrow> string \<Rightarrow> string" where
  "or_default_str opt d = (case opt of None \<Rightarrow> d | Some v \<Rightarrow> if v = [] then d else v)"

text \<open>\<open>options.x || false\<close> for a boolean option.\<close>

definition or_false :: "bool option \<Rightarrow> bool" where
  "or_false opt = (case opt of None \<Rightarrow> False | Some v \<Rightarrow> v)"

section \<open>VADProcessor (src/core/wakeword/vad.js)\<close>

record vad_options =
  opt_positiveThreshold :: "real option"
  opt_negativeThreshold :: "real option"
  opt_negativeCount :: "int option"

record VADProcessor =
  positiveThreshold :: real
  negativeThreshold :: real
  negativeCount :: int
  isSpeaking :: bool
  negativeSamples :: int
  wasSpseaking :: bool
  h :: "tensor option"
  c :: "tensor option"

definition no_vad_options :: vad_options where
  "no_vad_options =
     \<lparr>opt_positiveThreshold = None, opt_negativeThreshold = None, opt_negativeCount = None\<rparr>"

definition new_VADProcessor :: "vad_options \<Rightarrow> VADProcessor" where
  "new_VADProcessor options =
     \<lparr>positiveThreshold = or_default (opt_positiveThreshold options) 0.65,
      negativeThreshold = or_default (opt_negativeThreshold options) 0.4,
      negativeCount = or_default (opt_negativeCount options) 8,
      isSpeaking = False,
      negativeSamples = 0,
      wasSpseaking = False,
      h = None,
      c = None\<rparr>"

text \<open>
  \<open>getState\<close>. The file is an ES module (it is written with \<open>export\<close>), where
  \<open>require\<close> is not defined: when \<open>h\<close> is \<open>null\<close> the call
  \<open>require('onnxruntime-node')\<close> throws a ReferenceError before \<open>h\<close> and \<open>c\<close>
  are assigned, and the processor is left as it was. When \<open>h\<close> holds a tensor the
  method returns \<open>{h, c}\<close>. \<open>Inl\<close> is the exception.
\<close>

definition getState :: "VADProcessor \<Rightarrow> js_error + (tensor option \<times> tensor option)" where
  "getState v =
     (case h v of
        None \<Rightarrow> Inl (Error ''require is not defined'')
      | Some _ \<Rightarrow> Inr (h v, c v))"

text \<open>The output of one run of the voice-activity model: \<open>output.data[0]\<close>, \<open>hn\<close>, \<open>cn\<close>.\<close>

record vad_results =
  vad_output :: real
  hn :: tensor
  cn :: tensor

record vad_state =
  probability :: real
  vs_isSpeaking :: bool
  justStarted :: bool
  justEnded :: bool

definition process :: "VADProcessor \<Rightarrow> vad_results \<Rightarrow> VADProcessor \<times> vad_state" where
  "process v results =
     (let v1 = v\<lparr>h := Some (hn results), c := Some (cn results)\<rparr>;
          probability = vad_output results;
          wasSpseaking = isSpeaking v1;
          v2 = (if probability \<ge> positiveThreshold v1 then
                  v1\<lparr>isSpeaking := True, negativeSamples := 0\<rparr>
                else if probability < negativeThreshold v1 then
                  (let v1' = v1\<lparr>negativeSamples := negativeSamples v1 + 1\<rparr>
                   in if negativeSamples v1' \<ge> negativeCount v1' then v1'\<lparr>isSpeaking := False\<rparr>
                      else v1')
                else v1)
      in (v2, \<lparr>probability = probability,
                vs_isSpeaking = isSpeaking v2,
                justStarted = (isSpeaking v2 \<and> \<not> wasSpseaking),
                justEnded = (\<not> isSpeaking v2 \<and> wasSpseaking)\<rparr>))"

definition reset :: "VADProcessor \<Rightarrow> VADProcessor" where
  "reset v = v\<lparr>isSpeaking := False, negativeSamples := 0, h := None, c := None\<rparr>"

text \<open>
  Feeding a sequence of model outputs to \<open>process\<close>, one call per window, in order:
  the processor after the calls and the value each call returned.
\<close>

fun process_all :: "VADProcessor \<Rightarrow> vad_results list \<Rightarrow> VADProcessor \<times> vad_state list" where
  "process_all v [] = (v, [])"
| "process_all v (r # rs) =
     (let (v', s) = process v r; (v'', ss) = process_all v' rs in (v'', s # ss))"

section \<open>WakeWordDetector (src/core/wakeword/detector.js)\<close>

record detector_options =
  opt_debug :: "bool option"
  opt_wakeWord :: "string option"
  opt_threshold :: "real option"
  opt_cooldownMs :: "int option"

definition no_detector_options :: detector_options where
  "no_detector_options =
     \<lparr>opt_debug = None, opt_wakeWord = None, opt_threshold = None, opt_cooldownMs = None\<rparr>"

text \<open>
  The ONNX sessions are external engines; a run of one is an input of the model (see
  \<open>batch_io\<close>). \<open>audioSource\<close> is the identity of the event emitter passed to
  \<open>start\<close>. Times are milliseconds, as \<open>Date.now()\<close> returns them.
\<close>

record WakeWordDetector =
  debug :: bool
  wakeWord :: string
  threshold :: real
  cooldownMs :: int
  sampleRate :: nat
  batchSamples :: nat
  batchInterval :: nat
  isInitialized :: bool
  isRunning :: bool
  isPaused :: bool
  isRecording :: bool
  lastWakeWordTime :: int
  audioBuffer :: "real list"
  recordingBuffer :: "real list option"
  vad :: VADProcessor
  embeddingBuffer :: "tensor list"
  embeddingFrames :: nat
  speechProbability :: real
  audioSource :: "nat option"

definition new_WakeWordDetector :: "detector_options \<Rightarrow> WakeWordDetector" where
  "new_WakeWordDetector options =
     \<lparr>debug = or_false (opt_debug options),
      wakeWord = or_default_str (opt_wakeWord options) ''hey-buddy'',
      threshold = or_default (opt_threshold options) 0.5,
      cooldownMs = or_default (opt_cooldownMs options) 2000,
      sampleRate = 16000,
      batchSamples = nat \<lfloor>real 16000 * 1.08\<rfloor>,
      batchInterval = nat \<lfloor>real 16000 * 0.12\<rfloor>,
      isInitialized = False,
      isRunning = False,
      isPaused = False,
      isRecording = False,
      lastWakeWordTime = 0,
      audioBuffer = [],
      recordingBuffer = None,
      vad = new_VADProcessor
              \<lparr>opt_positiveThreshold = Some 0.65, opt_negativeThreshold = Some 0.4,
               opt_negativeCount = Some 8\<rparr>,
      embeddingBuffer = [],
      embeddingFrames = 16,
      speechProbability = 0,
      audioSource = None\<rparr>"

text \<open>The keys of the object \<open>WAKE_WORD_MODELS\<close>; each holds a URL.\<close>

definition WAKE_WORD_MODELS :: "string list" where
  "WAKE_WORD_MODELS = [''hey-buddy'', ''ok-buddy'', ''hi-buddy'']"

text \<open>
  \<open>initialize\<close>: \<open>pretrained\<close> is the failure, if any, of downloading or creating the
  three pretrained sessions, \<open>model\<close> that of the wake-word session.
  \<open>WAKE_WORD_MODELS[this.wakeWord]\<close> is falsy only for a name that is neither a key
  of the object nor inherited from \<open>Object.prototype\<close>; for an inherited name the
  value handed on to the download is not a URL, and what the download makes of it is
  part of \<open>model\<close>.
\<close>

definition initialize ::
  "WakeWordDetector \<Rightarrow> js_error option \<Rightarrow> js_error option \<Rightarrow> js_error + WakeWordDetector" where
  "initialize d pretrained model =
     (if isInitialized d then Inr d
      else
        (case pretrained of
           Some e \<Rightarrow> Inl e
         | None \<Rightarrow>
             (if wakeWord d \<notin> set WAKE_WORD_MODELS \<and> wakeWord d \<notin> set object_prototype then
                Inl (Error (''Unknown wake word: '' @ wakeWord d))
              else
                (case model of
                   Some e \<Rightarrow> Inl e
                 | None \<Rightarrow> Inr (d\<lparr>isInitialized := True\<rparr>)))))"

text \<open>
  The audio sources of the environment: for each source, the number of listeners
  subscribed to its \<open>data\<close> event.
\<close>

type_synonym listeners = "nat \<Rightarrow> nat"

definition start ::
  "WakeWordDetector \<Rightarrow> listeners \<Rightarrow> nat \<Rightarrow> js_error + WakeWordDetector \<times> listeners" where
  "start d ls src =
     (if \<not> isInitialized d then Inl (Error ''Wake word detector not initialized'')
      else Inr (d\<lparr>isRunning := True, audioSource := Some src\<rparr>, ls(src := ls src + 1)))"

definition stop :: "WakeWordDetector \<Rightarrow> listeners \<Rightarrow> WakeWordDetector \<times> listeners" where
  "stop d ls =
     (d\<lparr>isRunning := False\<rparr>,
      case audioSource d of None \<Rightarrow> ls | Some src \<Rightarrow> ls(src := 0))"

definition pause :: "WakeWordDetector \<Rightarrow> WakeWordDetector" where
  "pause d = d\<lparr>isPaused := True\<rparr>"

definition resume :: "WakeWordDetector \<Rightarrow> WakeWordDetector" where
  "resume d = d\<lparr>isPaused := False, isRecording := False, recordingBuffer := None\<rparr>"

subsection \<open>One analysis window\<close>

text \<open>
  What the engines and the clock give for the window of one call of \<open>processBatch\<close>,
  each used if the call gets as far as asking for it; \<open>None\<close> is a call that throws.
  \<open>io_wakeword\<close> is \<open>results.probability.data[0]\<close> of the wake-word session run on
  the combined embeddings.
\<close>

record batch_io =
  io_vad :: "vad_results option"
  io_spectrogram :: "tensor option"
  io_embedding :: "tensor option"
  io_wakeword :: "real option"
  io_now :: int

text \<open>
  The events the detector emits; \<open>SpeechEnd\<close> carries \<open>recordingBuffer\<close>. What the
  listeners of an event do is not part of the detector: the model returns the events
  in the order they are emitted.
\<close>

datatype det_event = Vad real bool | SpeechStart | SpeechEnd "real list option" | Detected

text \<open>
  \<open>runVAD\<close>: the feeds are built first, so when \<open>getState\<close> throws the
  voice-activity session is not run. \<open>None\<close> is a call that throws.
\<close>

definition runVAD :: "WakeWordDetector \<Rightarrow> batch_io \<Rightarrow> WakeWordDetector \<times> vad_state option" where
  "runVAD d io =
     (case getState (vad d) of
        Inl e \<Rightarrow> (d, None)
      | Inr feeds \<Rightarrow>
          (case io_vad io of
             None \<Rightarrow> (d, None)
           | Some results \<Rightarrow>
               (let (v', st) = process (vad d) results in (d\<lparr>vad := v'\<rparr>, Some st))))"

definition checkWakeWord :: "WakeWordDetector \<Rightarrow> batch_io \<Rightarrow> bool option" where
  "checkWakeWord d io = map_option (\<lambda>probability. probability \<ge> threshold d) (io_wakeword io)"

text \<open>Steps 4 and 5 of \<open>processBatch\<close>: the embedding buffer and the wake-word check.\<close>

definition pushEmbedding :: "WakeWordDetector \<Rightarrow> tensor \<Rightarrow> WakeWordDetector" where
  "pushEmbedding d embedding =
     (let d1 = d\<lparr>embeddingBuffer := embeddingBuffer d @ [embedding]\<rparr>
      in if length (embeddingBuffer d1) > embeddingFrames d1
         then d1\<lparr>embeddingBuffer := tl (embeddingBuffer d1)\<rparr> else d1)"

definition detectStep ::
  "WakeWordDetector \<Rightarrow> real list \<Rightarrow> batch_io \<Rightarrow> WakeWordDetector \<times> det_event list" where
  "detectStep d audio io =
     (if length (embeddingBuffer d) \<ge> embeddingFrames d then
        (case checkWakeWord d io of
           None \<Rightarrow> (d, [])
         | Some detected \<Rightarrow>
             if detected then
               (let now = io_now io
                in if now - lastWakeWordTime d \<ge> cooldownMs d then
                     (d\<lparr>lastWakeWordTime := now, isRecording := True,
                        recordingBuffer := Some audio\<rparr>, [Detected])
                   else (d, []))
             else (d, []))
      else (d, []))"

definition processBatch ::
  "WakeWordDetector \<Rightarrow> real list \<Rightarrow> batch_io \<Rightarrow> WakeWordDetector \<times> det_event list" where
  "processBatch d audio io =
     (case runVAD d io of
        (d0, None) \<Rightarrow> (d0, [])
      | (d0, Some vadResult) \<Rightarrow>
          (let d1 = d0\<lparr>speechProbability := probability vadResult\<rparr>;
               ev1 = [Vad (probability vadResult) (vs_isSpeaking vadResult)];
               ev2 = (if justStarted vadResult then [SpeechStart] else []);
               ev3 = (if justEnded vadResult then [SpeechEnd (recordingBuffer d1)] else []);
               d2 = (if justEnded vadResult then d1\<lparr>recordingBuffer := None\<rparr> else d1);
               evs = ev1 @ ev2 @ ev3
           in if \<not> vs_isSpeaking vadResult then (d2, evs)
              else
                (case io_spectrogram io of
                   None \<Rightarrow> (d2, evs)
                 | Some spectrogram \<Rightarrow>
                     (case io_embedding io of
                        None \<Rightarrow> (d2, evs)
                      | Some embedding \<Rightarrow>
                          (let (d3, ev4) = detectStep (pushEmbedding d2 embedding) audio io
                           in (d3, evs @ ev4))))))"


text \<open>A run of \<open>processBatch\<close> over successive windows: the events of each window.\<close>

fun processBatches ::
  "WakeWordDetector \<Rightarrow> (real list \<times> batch_io) list \<Rightarrow> WakeWordDetector \<times> det_event list list" where
  "processBatches d [] = (d, [])"
| "processBatches d ((audio, io) # rest) =
     (let (d1, evs) = processBatch d audio io;
          (d2, evss) = processBatches d1 rest
      in (d2, evs # evss))"

subsection \<open>Audio chunks\<close>

text \<open>
  A chunk is a \<open>Buffer\<close> of 16-bit little-endian PCM or a \<open>Float32Array\<close>.
  \<open>new Float32Array(chunk.length / 2)\<close> truncates the length to an integer.
\<close>

datatype chunk = Buffer "8 word list" | Float32Array "real list"

definition readInt16LE :: "8 word list \<Rightarrow> nat \<Rightarrow> int" where
  "readInt16LE bytes off = sint (word_cat (bytes ! (off + 1)) (bytes ! off) :: 16 word)"

definition chunk_samples :: "chunk \<Rightarrow> real list" where
  "chunk_samples ch =
     (case ch of
        Buffer bytes \<Rightarrow>
          map (\<lambda>i. real_of_int (readInt16LE bytes (i * 2)) / 32768) [0..<length bytes div 2]
      | Float32Array samples \<Rightarrow> samples)"

text \<open>
  The loop of \<open>processAudioChunk\<close>. Each iteration consumes the engine outputs of one
  window from \<open>ios\<close>; the result is \<open>None\<close> when they run out before the loop ends.
  The log holds each window passed to \<open>processBatch\<close> with the events it emitted.
\<close>

fun batch_loop ::
  "WakeWordDetector \<Rightarrow> batch_io list \<Rightarrow>
   (WakeWordDetector \<times> (real list \<times> det_event list) list \<times> batch_io list) option" where
  "batch_loop d [] =
     (if length (audioBuffer d) \<ge> batchSamples d then None else Some (d, [], []))"
| "batch_loop d (io # ios) =
     (if length (audioBuffer d) \<ge> batchSamples d then
        (let batch = take (batchSamples d) (audioBuffer d);
             d1 = d\<lparr>audioBuffer := drop (batchInterval d) (audioBuffer d)\<rparr>;
             (d2, evs) = processBatch d1 batch io
         in (case batch_loop d2 ios of
               None \<Rightarrow> None
             | Some (d3, tr, ios') \<Rightarrow> Some (d3, (batch, evs) # tr, ios')))
      else Some (d, [], io # ios))"

definition processAudioChunk ::
  "WakeWordDetector \<Rightarrow> chunk \<Rightarrow> batch_io list \<Rightarrow>
   (WakeWordDetector \<times> (real list \<times> det_event list) list \<times> batch_io list) option" where
  "processAudioChunk d ch ios =
     (if \<not> isRunning d \<or> isPaused d then Some (d, [], ios)
      else
        (let samples = chunk_samples ch;
             d1 = d\<lparr>audioBuffer := audioBuffer d @ samples\<rparr>;
             d2 = (if isRecording d1 then
                     d1\<lparr>recordingBuffer :=
                          Some ((case recordingBuffer d1 of None \<Rightarrow> [] | Some r \<Rightarrow> r) @ samples)\<rparr>
                   else d1)
         in batch_loop d2 ios))"

text \<open>Chunks pushed one after the other, each call ending before the next begins.\<close>

fun processAudioChunks ::
  "WakeWordDetector \<Rightarrow> chunk list \<Rightarrow> batch_io list \<Rightarrow>
   (WakeWordDetector \<times> (real list \<times> det_event list) list \<times> batch_io list) option" where
  "processAudioChunks d [] ios = Some (d, [], ios)"
| "processAudioChunks d (ch # chs) ios =
     (case processAudioChunk d ch ios of
        None \<Rightarrow> None
      | Some (d1, tr1, ios1) \<Rightarrow>
          (case processAudioChunks d1 chs ios1 of
             None \<Rightarrow> None
           | Some (d2, tr2, ios2) \<Rightarrow> Some (d2, tr1 @ tr2, ios2)))"

section \<open>FunctionCaller (src/unnamed/part_003)\<close>

text \<open>
  \<open>error.message\<close>: reading it from \<open>null\<close> or \<open>undefined\<close> throws a TypeError.
\<close>

definition message :: "js_error \<Rightarrow> js_error + string option" where
  "message e =
     (case e of
        Error m \<Rightarrow> Inr (Some m)
      | ThrownValue m shown \<Rightarrow> Inr m
      | ThrownNull \<Rightarrow> Inl (cannot_read ''null'' ''message'')
      | ThrownUndefined \<Rightarrow> Inl (cannot_read ''undefined'' ''message''))"

text \<open>A value inside a template literal: \<open>undefined\<close> prints as its name.\<close>

definition template :: "string option \<Rightarrow> string" where
  "template v = (case v of None \<Rightarrow> ''undefined'' | Some m \<Rightarrow> m)"

text \<open>A string in a condition: \<open>undefined\<close>, \<open>null\<close> and the empty string are falsy.\<close>

definition truthy :: "string option \<Rightarrow> bool" where
  "truthy v = (case v of None \<Rightarrow> False | Some m \<Rightarrow> m \<noteq> [])"

text \<open>
  \<open>String.prototype.trim\<close> strips the white space and the line terminators of
  ECMAScript from both ends. Below 256 these are tab, line feed, vertical tab, form
  feed, carriage return, space and the no-break space U+00A0 (the others are U+1680,
  U+2000 to U+200A, U+2028, U+2029, U+202F, U+205F, U+3000 and U+FEFF).
\<close>

definition is_space :: "char \<Rightarrow> bool" where
  "is_space ch =
     (ch \<in> set [CHR 0x09, CHR 0x0A, CHR 0x0B, CHR 0x0C, CHR 0x0D, CHR 0x20, CHR 0xA0])"

definition trim :: "string \<Rightarrow> string" where
  "trim t = rev (dropWhile is_space (rev (dropWhile is_space t)))"

type_synonym params = "(string \<times> string) list"

text \<open>What a tool handler returns: \<open>undefined\<close>, or an object with an optional \<open>response\<close>.\<close>

record tool_result =
  tr_response :: "string option"

datatype handler_outcome = Returns "tool_result option" | Throws js_error

text \<open>
  An entry of the tool map, \<open>{schema, handler}\<close>; \<open>schema\<close> stands for the
  schema object, and the handler is \<open>null\<close> in \<open>TOOLS\<close> until an adapter sets
  it.
\<close>

record tool =
  schema :: string
  handler :: "(params \<Rightarrow> handler_outcome) option"

text \<open>The object \<open>process\<close> returns; \<open>func\<close> is its \<open>function\<close> field.\<close>

record intent =
  func :: "string option"
  parameters :: params
  response :: "string option"
  executed :: "bool option"
  toolResult :: "tool_result option"
  error :: "string option"

record FunctionCaller =
  fc_debug :: bool
  quantized :: bool
  fc_tools :: "string \<rightharpoonup> tool"
  toolSchemas :: "string \<rightharpoonup> string"
  fc_isInitialized :: bool

definition new_FunctionCaller :: "bool \<Rightarrow> bool \<Rightarrow> (string \<rightharpoonup> tool) \<Rightarrow> FunctionCaller" where
  "new_FunctionCaller dbg quant tls =
     \<lparr>fc_debug = dbg, quantized = quant, fc_tools = tls, toolSchemas = Map.empty,
      fc_isInitialized = False\<rparr>"

definition fc_registerTool ::
  "FunctionCaller \<Rightarrow> string \<Rightarrow> string \<Rightarrow> (params \<Rightarrow> handler_outcome) option \<Rightarrow> FunctionCaller" where
  "fc_registerTool fc name sch hnd =
     fc\<lparr>fc_tools := (fc_tools fc)(name \<mapsto> \<lparr>schema = sch, handler = hnd\<rparr>),
        toolSchemas := (toolSchemas fc)(name \<mapsto> sch)\<rparr>"

text \<open>
  What the engines give during one call of \<open>process\<close>: the failure, if any, of loading
  the model; the decoded text of the generation, or what tokenizing, generating or
  decoding threw; and, for a text, the object \<open>JSON.parse\<close> builds from the match of
  \<open>/\{[\s\S]*\}/\<close> (\<open>None\<close> when nothing matches or parsing throws).
\<close>

record fc_io =
  io_load :: "js_error option"
  io_generate :: "js_error + string"
  io_json :: "string \<Rightarrow> intent option"

definition fc_initialize :: "FunctionCaller \<Rightarrow> js_error option \<Rightarrow> js_error + FunctionCaller" where
  "fc_initialize fc load =
     (if fc_isInitialized fc then Inr fc
      else (case load of Some e \<Rightarrow> Inl e | None \<Rightarrow> Inr (fc\<lparr>fc_isInitialized := True\<rparr>)))"

definition parseResponse :: "(string \<Rightarrow> intent option) \<Rightarrow> string \<Rightarrow> intent" where
  "parseResponse json responseText =
     (case json responseText of
        Some result \<Rightarrow> result
      | None \<Rightarrow>
          \<lparr>func = None, parameters = [], response = Some (trim responseText),
           executed = None, toolResult = None, error = None\<rparr>)"

text \<open>
  \<open>this.tools[name]\<close>. The tool map is an object literal, given by its own
  properties: the lookup finds the entry registered under the name, or else what the
  object inherits. An assignment to \<open>tools['__proto__']\<close> makes the entry the
  prototype of the map instead of a property, so the map's entry under that name stands
  for its prototype: the lookup of \<open>__proto__\<close> returns it and its \<open>schema\<close> and
  (non-null) \<open>handler\<close> are inherited under their names. \<open>Member\<close> is an inherited
  value: truthy, and with no \<open>handler\<close> of its own.
\<close>

datatype looked_up = Entry tool | Member

definition lookup_tool :: "(string \<rightharpoonup> tool) \<Rightarrow> string \<Rightarrow> looked_up option" where
  "lookup_tool tls name =
     (case tls name of
        Some entry \<Rightarrow> Some (Entry entry)
      | None \<Rightarrow>
          (if name \<in> set object_prototype then Some Member
           else
             (case tls ''__proto__'' of
                None \<Rightarrow> None
              | Some proto \<Rightarrow>
                  if name = ''schema'' \<or> (name = ''handler'' \<and> handler proto \<noteq> None)
                  then Some Member else None)))"

text \<open>
  \<open>await tool.handler(result.parameters)\<close>: calling a handler that is \<open>null\<close> or
  \<open>undefined\<close> throws a TypeError.
\<close>

definition callHandler :: "looked_up \<Rightarrow> params \<Rightarrow> handler_outcome" where
  "callHandler found ps =
     (case found of
        Member \<Rightarrow> Throws (Error ''tool.handler is not a function'')
      | Entry tool \<Rightarrow>
          (case handler tool of
             None \<Rightarrow> Throws (Error ''tool.handler is not a function'')
           | Some hnd \<Rightarrow> hnd ps))"

text \<open>
  The block \<open>if (result.function && this.tools[result.function]) { try ... catch ... }\<close>.
  \<open>Inl\<close> is an exception that leaves the inner \<open>catch\<close>.
\<close>

definition executeTool :: "FunctionCaller \<Rightarrow> intent \<Rightarrow> js_error + intent" where
  "executeTool fc result =
     (case (if truthy (func result) then lookup_tool (fc_tools fc) (the (func result)) else None) of
        None \<Rightarrow> Inr result
      | Some found \<Rightarrow>
          (case callHandler found (parameters result) of
             Returns res \<Rightarrow>
               (let result1 = result\<lparr>executed := Some True, toolResult := res\<rparr>
                in if truthy (case res of None \<Rightarrow> None | Some r \<Rightarrow> tr_response r)
                   then Inr (result1\<lparr>response := tr_response (the res)\<rparr>)
                   else Inr result1)
           | Throws e \<Rightarrow>
               (case message e of
                  Inl te \<Rightarrow> Inl te
                | Inr m \<Rightarrow>
                    Inr (result\<lparr>executed := Some False, error := m,
                           response := Some (''Sorry, I had trouble with that. '' @ template m)\<rparr>))))"

text \<open>The outer \<open>catch\<close> of \<open>process\<close>.\<close>

definition didNotUnderstand :: "js_error \<Rightarrow> js_error + intent" where
  "didNotUnderstand e =
     (case message e of
        Inl te \<Rightarrow> Inl te
      | Inr m \<Rightarrow>
          Inr \<lparr>func = None, parameters = [],
               response = Some (''I'' @ [CHR 0x27] @ ''m sorry, I didn'' @ [CHR 0x27] @ ''t understand that.''),
               executed = None, toolResult = None, error = m\<rparr>)"

text \<open>\<open>process\<close>: \<open>Inl\<close> is a rejected promise.\<close>

definition fc_process :: "FunctionCaller \<Rightarrow> string \<Rightarrow> fc_io \<Rightarrow> FunctionCaller \<times> (js_error + intent)" where
  "fc_process fc text io =
     (case fc_initialize fc (io_load io) of
        Inl e \<Rightarrow> (fc, Inl e)
      | Inr fc1 \<Rightarrow>
          (fc1,
           (case io_generate io of
              Inl e \<Rightarrow> didNotUnderstand e
            | Inr responseText \<Rightarrow>
                (case executeTool fc1 (parseResponse (io_json io) responseText) of
                   Inl e \<Rightarrow> didNotUnderstand e
                 | Inr result \<Rightarrow> Inr result))))"

text \<open>
  The response of the object \<open>process\<close> returns after a tool handler threw \<open>e\<close>: the
  text set in the inner \<open>catch\<close>, or that of the outer \<open>catch\<close> when reading
  \<open>e.message\<close> threw.
\<close>

definition apology :: "js_error \<Rightarrow> string" where
  "apology e =
     (case message e of
        Inr m \<Rightarrow> ''Sorry, I had trouble with that. '' @ template m
      | Inl te \<Rightarrow> ''I'' @ [CHR 0x27] @ ''m sorry, I didn'' @ [CHR 0x27] @ ''t understand that.'')"

section \<open>VoicePipeline (src/core/pipeline.js)\<close>

datatype pipeline_state = Idle | Listening | Recording | Transcribing | Processing | Speaking

text \<open>
  The speech recogniser and the synthesiser are engines; of the synthesiser the model
  keeps the two fields \<open>stop\<close> resets (what playing does to them in between is
  not followed).
\<close>

record TextToSpeech =
  speaker :: bool
  isPlaying :: bool

definition tts_stop :: "TextToSpeech \<Rightarrow> TextToSpeech" where
  "tts_stop t = t\<lparr>speaker := False, isPlaying := False\<rparr>"

record pipeline_options =
  po_debug :: "bool option"
  po_performanceMode :: "string option"
  po_wakeWord :: "string option"
  po_ttsVoice :: "string option"
  po_tools :: "(string \<rightharpoonup> tool) option"

definition no_pipeline_options :: pipeline_options where
  "no_pipeline_options =
     \<lparr>po_debug = None, po_performanceMode = None, po_wakeWord = None, po_ttsVoice = None,
      po_tools = None\<rparr>"

text \<open>
  \<open>errorListeners\<close> is the number of listeners of the pipeline's own \<open>error\<close> event:
  an event emitter with none throws when \<open>error\<close> is emitted. \<open>stt\<close> tells whether the
  recogniser object exists.
\<close>

record VoicePipeline =
  pl_debug :: bool
  performanceMode :: string
  pl_wakeWord :: string
  ttsVoice :: string
  tools :: "string \<rightharpoonup> tool"
  state :: pipeline_state
  pl_isInitialized :: bool
  pl_isPaused :: bool
  wakeWordDetector :: "WakeWordDetector option"
  stt :: bool
  functionCaller :: "FunctionCaller option"
  tts :: "TextToSpeech option"
  errorListeners :: nat

definition new_VoicePipeline :: "pipeline_options \<Rightarrow> VoicePipeline" where
  "new_VoicePipeline options =
     \<lparr>pl_debug = or_false (po_debug options),
      performanceMode = or_default_str (po_performanceMode options) ''potato'',
      pl_wakeWord = or_default_str (po_wakeWord options) ''hey-buddy'',
      ttsVoice = or_default_str (po_ttsVoice options) ''M3'',
      tools = (case po_tools options of None \<Rightarrow> Map.empty | Some t \<Rightarrow> t),
      state = Idle,
      pl_isInitialized = False,
      pl_isPaused = False,
      wakeWordDetector = None,
      stt = False,
      functionCaller = None,
      tts = None,
      errorListeners = 0\<rparr>"

text \<open>
  The events the pipeline emits (the \<open>status\<close> messages of \<open>initialize\<close> and the
  re-emitted \<open>vad\<close> and \<open>speechStart\<close> left out), and \<open>Speak\<close> for a call of
  \<open>tts.speak\<close> with its text.
\<close>

datatype pl_event =
    StateChange pipeline_state
  | Ready
  | WakeWord
  | Transcript "string option"
  | Intent intent
  | ErrorEvent js_error
  | Speak string

text \<open>
  \<open>functionGemmaQuantized\<close> of \<open>getPerformanceConfig\<close>; an unknown mode falls back to
  \<open>potato\<close>.
\<close>

definition functionGemmaQuantized :: "VoicePipeline \<Rightarrow> bool" where
  "functionGemmaQuantized p =
     (if performanceMode p = ''balanced'' \<or> performanceMode p = ''quality'' then False else True)"

text \<open>The failures, if any, of loading each component in \<open>initialize\<close>.\<close>

record init_io =
  init_pretrained :: "js_error option"
  init_model :: "js_error option"
  init_stt :: "js_error option"
  init_fc :: "js_error option"
  init_tts :: "js_error option"

definition all_loaded :: init_io where
  "all_loaded = \<lparr>init_pretrained = None, init_model = None, init_stt = None, init_fc = None,
                 init_tts = None\<rparr>"

text \<open>
  The asynchronous methods return the pipeline, the events emitted and the value the
  promise rejects with, if it rejects.
\<close>

definition pl_initialize ::
  "VoicePipeline \<Rightarrow> init_io \<Rightarrow> VoicePipeline \<times> pl_event list \<times> js_error option" where
  "pl_initialize p ii =
     (if pl_isInitialized p then (p, [], None)
      else
        (let d = new_WakeWordDetector
                   \<lparr>opt_debug = Some (pl_debug p), opt_wakeWord = Some (pl_wakeWord p),
                    opt_threshold = None, opt_cooldownMs = None\<rparr>;
             p1 = p\<lparr>wakeWordDetector := Some d\<rparr>
         in case initialize d (init_pretrained ii) (init_model ii) of
              Inl e \<Rightarrow> (p1, [], Some e)
            | Inr d1 \<Rightarrow>
                (let p2 = p1\<lparr>wakeWordDetector := Some d1, stt := True\<rparr>
                 in case init_stt ii of
                      Some e \<Rightarrow> (p2, [], Some e)
                    | None \<Rightarrow>
                        (let fc = new_FunctionCaller (pl_debug p2) (functionGemmaQuantized p2)
                                    (tools p2);
                             p3 = p2\<lparr>functionCaller := Some fc\<rparr>
                         in case fc_initialize fc (init_fc ii) of
                              Inl e \<Rightarrow> (p3, [], Some e)
                            | Inr fc1 \<Rightarrow>
                                (let p4 = p3\<lparr>functionCaller := Some fc1,
                                              tts := Some \<lparr>speaker = False, isPlaying = False\<rparr>\<rparr>
                                 in case init_tts ii of
                                      Some e \<Rightarrow> (p4, [], Some e)
                                    | None \<Rightarrow>
                                        (p4\<lparr>pl_isInitialized := True, state := Idle\<rparr>,
                                         [Ready], None))))))"

definition pl_start ::
  "VoicePipeline \<Rightarrow> listeners \<Rightarrow> nat \<Rightarrow> init_io \<Rightarrow>
   VoicePipeline \<times> listeners \<times> pl_event list \<times> js_error option" where
  "pl_start p ls src ii =
     (case pl_initialize p ii of
        (p1, evs, Some e) \<Rightarrow> (p1, ls, evs, Some e)
      | (p1, evs, None) \<Rightarrow>
          (let p2 = p1\<lparr>state := Listening\<rparr>;
               evs2 = evs @ [StateChange Listening]
           in (case wakeWordDetector p2 of
                 None \<Rightarrow> (p2, ls, evs2, Some (cannot_read ''null'' ''start''))
               | Some d \<Rightarrow>
                   (case start d ls src of
                      Inl e \<Rightarrow> (p2, ls, evs2, Some e)
                    | Inr (d1, ls1) \<Rightarrow>
                        (p2\<lparr>wakeWordDetector := Some d1\<rparr>, ls1, evs2, None)))))"

definition pl_stop ::
  "VoicePipeline \<Rightarrow> listeners \<Rightarrow> VoicePipeline \<times> listeners \<times> pl_event list" where
  "pl_stop p ls =
     (let (det, ls1) = (case wakeWordDetector p of
                          None \<Rightarrow> (None, ls)
                        | Some d \<Rightarrow> (let (d1, ls') = stop d ls in (Some d1, ls')));
          p1 = p\<lparr>wakeWordDetector := det, tts := map_option tts_stop (tts p)\<rparr>
      in (p1\<lparr>state := Idle\<rparr>, ls1, [StateChange Idle]))"

definition pl_pause :: "VoicePipeline \<Rightarrow> VoicePipeline" where
  "pl_pause p = p\<lparr>pl_isPaused := True, wakeWordDetector := map_option pause (wakeWordDetector p)\<rparr>"

definition pl_resume :: "VoicePipeline \<Rightarrow> VoicePipeline \<times> pl_event list" where
  "pl_resume p =
     (p\<lparr>pl_isPaused := False, wakeWordDetector := map_option resume (wakeWordDetector p),
        state := Listening\<rparr>,
      [StateChange Listening])"

definition onWakeWordDetected :: "VoicePipeline \<Rightarrow> VoicePipeline \<times> pl_event list" where
  "onWakeWordDetected p = (p\<lparr>state := Recording\<rparr>, [StateChange Recording, WakeWord])"

text \<open>
  What the engines give during one cycle: the transcript (\<open>result.text\<close>, possibly
  \<open>undefined\<close>) or what \<open>transcribe\<close> threw, the engine outputs of
  \<open>FunctionCaller.process\<close>, and what \<open>tts.speak\<close> threw, if it did.
\<close>

record cycle_io =
  io_transcribe :: "js_error + string option"
  io_process :: fc_io
  io_speak :: "js_error option"

text \<open>
  \<open>this.emit('error', error)\<close>: with no listener the emitter throws, the error itself
  when it is an instance of \<open>Error\<close>, and otherwise an \<open>Error\<close> whose message
  shows the value as \<open>util.inspect\<close> prints it.
\<close>

definition unhandled :: "js_error \<Rightarrow> js_error" where
  "unhandled e =
     (case e of
        Error m \<Rightarrow> Error m
      | ThrownValue m shown \<Rightarrow> Error (''Unhandled error. ('' @ shown @ '')'')
      | ThrownNull \<Rightarrow> Error ''Unhandled error. (null)''
      | ThrownUndefined \<Rightarrow> Error ''Unhandled error. (undefined)'')"

text \<open>
  The \<open>catch\<close> block of \<open>onSpeechEnd\<close> followed by the \<open>resume\<close> after it; when
  emitting \<open>error\<close> throws, \<open>resume\<close> is not reached.
\<close>

definition catchAndResume ::
  "VoicePipeline \<Rightarrow> pl_event list \<Rightarrow> js_error \<Rightarrow>
   VoicePipeline \<times> pl_event list \<times> js_error option" where
  "catchAndResume p evs e =
     (if errorListeners p = 0 then (p, evs @ [ErrorEvent e], Some (unhandled e))
      else (let (p1, evs1) = pl_resume p in (p1, evs @ [ErrorEvent e] @ evs1, None)))"

text \<open>\<open>this.functionCaller.process(text)\<close>; the call throws when the component is \<open>null\<close>.\<close>

definition callProcess ::
  "VoicePipeline \<Rightarrow> string \<Rightarrow> fc_io \<Rightarrow> VoicePipeline \<times> (js_error + intent)" where
  "callProcess p text io =
     (case functionCaller p of
        None \<Rightarrow> (p, Inl (cannot_read ''null'' ''process''))
      | Some fc \<Rightarrow>
          (let (fc1, r) = fc_process fc text io in (p\<lparr>functionCaller := Some fc1\<rparr>, r)))"

text \<open>\<open>this.tts.speak(text)\<close>.\<close>

definition callSpeak :: "VoicePipeline \<Rightarrow> js_error option \<Rightarrow> js_error option" where
  "callSpeak p spoke =
     (case tts p of None \<Rightarrow> Some (cannot_read ''null'' ''speak'') | Some _ \<Rightarrow> spoke)"

text \<open>
  \<open>onSpeechEnd\<close>, run from its first statement to its last with nothing in between:
  one cycle of the pipeline. It is written in its three numbered steps, last first.
\<close>

text \<open>Step 3, \<open>if (result.response) { ... }\<close>, and the \<open>resume\<close> that ends the cycle.\<close>

definition speakResponse ::
  "VoicePipeline \<Rightarrow> pl_event list \<Rightarrow> intent \<Rightarrow> cycle_io \<Rightarrow>
   VoicePipeline \<times> pl_event list \<times> js_error option" where
  "speakResponse p evs result io =
     (if truthy (response result) then
        (let p1 = p\<lparr>state := Speaking\<rparr>;
             evs1 = evs @ [StateChange Speaking, Speak (the (response result))]
         in (case callSpeak p1 (io_speak io) of
               Some e \<Rightarrow> catchAndResume p1 evs1 e
             | None \<Rightarrow> (let (p2, evs2) = pl_resume p1 in (p2, evs1 @ evs2, None))))
      else (let (p1, evs1) = pl_resume p in (p1, evs @ evs1, None)))"

text \<open>Step 2, from \<open>this.state = 'processing'\<close> on.\<close>

definition processIntent ::
  "VoicePipeline \<Rightarrow> pl_event list \<Rightarrow> string \<Rightarrow> cycle_io \<Rightarrow>
   VoicePipeline \<times> pl_event list \<times> js_error option" where
  "processIntent p evs transcript io =
     (let p1 = p\<lparr>state := Processing\<rparr>;
          evs1 = evs @ [StateChange Processing];
          (p2, r) = callProcess p1 transcript (io_process io)
      in (case r of
            Inl e \<Rightarrow> catchAndResume p2 evs1 e
          | Inr result \<Rightarrow> speakResponse p2 (evs1 @ [Intent result]) result io))"

definition onSpeechEnd ::
  "VoicePipeline \<Rightarrow> real list option \<Rightarrow> cycle_io \<Rightarrow>
   VoicePipeline \<times> pl_event list \<times> js_error option" where
  "onSpeechEnd p audio io =
     (if state p \<noteq> Recording then (p, [], None)
      else
        (let p1 = (pl_pause p)\<lparr>state := Transcribing\<rparr>;
             evs1 = [StateChange Transcribing]
         in (case (if stt p1 then io_transcribe io else Inl (cannot_read ''null'' ''transcribe'')) of
               Inl e \<Rightarrow> catchAndResume p1 evs1 e
             | Inr transcript \<Rightarrow>
                 (let evs2 = evs1 @ [Transcript transcript]
                  in if \<not> truthy transcript \<or> length (trim (the transcript)) = 0 then
                       (let (p2, evs3) = pl_resume p1 in (p2, evs2 @ evs3, None))
                     else processIntent p1 evs2 (the transcript) io))))"


definition registerTool ::
  "VoicePipeline \<Rightarrow> string \<Rightarrow> string \<Rightarrow> (params \<Rightarrow> handler_outcome) option \<Rightarrow> VoicePipeline" where
  "registerTool p name sch hnd =
     p\<lparr>tools := (tools p)(name \<mapsto> \<lparr>schema = sch, handler = hnd\<rparr>),
       functionCaller := map_option (\<lambda>fc. fc_registerTool fc name sch hnd) (functionCaller p)\<rparr>"

section \<open>Inputs used in the examples\<close>

text \<open>A voice-activity model output with the given score.\<close>

definition score :: "real \<Rightarrow> vad_results" where
  "score x = \<lparr>vad_output = x, hn = [], cn = []\<rparr>"

text \<open>A processor with the default thresholds and a run of scores for it.\<close>

definition example_vad :: VADProcessor where
  "example_vad = new_VADProcessor no_vad_options"

definition example_scores :: "vad_results list" where
  "example_scores = map score [0.1, 0.9, 0.5, 0.1, 0.1, 0.1, 0.1, 0.1, 0.1, 0.1, 0.1]"

text \<open>
  The detector built with no options, after \<open>initialize\<close> has loaded the models and
  \<open>start\<close> has subscribed it to audio source 0.
\<close>

definition started_detector :: WakeWordDetector where
  "started_detector =
     (new_WakeWordDetector no_detector_options)
       \<lparr>isInitialized := True, isRunning := True, audioSource := Some 0\<rparr>"

text \<open>
  The processor is a public field of the detector, \<open>detector.vad\<close>. \<open>primed d\<close> is
  the detector after its owner has called \<open>detector.vad.process\<close> once, with a model
  output whose score lies between the two thresholds: the processor then holds an LSTM
  state, so that \<open>getState\<close> returns it, and is otherwise as it was.
\<close>

definition primed :: "WakeWordDetector \<Rightarrow> WakeWordDetector" where
  "primed d = d\<lparr>vad := fst (process (vad d) (score 0.5))\<rparr>"

definition primed_detector :: WakeWordDetector where
  "primed_detector = primed started_detector"

text \<open>The engine outputs for a window of silence.\<close>

definition silence :: batch_io where
  "silence = \<lparr>io_vad = Some (score 0.1), io_spectrogram = None, io_embedding = None,
              io_wakeword = None, io_now = 0\<rparr>"

text \<open>
  The engine outputs for a window of speech: embedding \<open>e\<close>, classifier probability
  \<open>p\<close>, clock \<open>t\<close>.
\<close>

definition speech :: "tensor \<Rightarrow> real \<Rightarrow> int \<Rightarrow> batch_io" where
  "speech e p t = \<lparr>io_vad = Some (score 0.9), io_spectrogram = Some [], io_embedding = Some e,
              io_wakeword = Some p, io_now = t\<rparr>"

text \<open>A window and a hop of samples.\<close>

definition window0 :: "real list" where
  "window0 = replicate 17280 0"

definition hop :: chunk where
  "hop = Float32Array (replicate 1920 0)"


text \<open>
  Sixteen windows of speech, fed as chunks; the classifier accepts the sixteenth, at
  time 10000.
\<close>

definition wake_chunks :: "chunk list" where
  "wake_chunks = [Float32Array window0, hop, hop, hop, hop, hop, hop, hop, hop, hop, hop, hop,
     hop, hop, hop, hop]"

definition wake_ios :: "batch_io list" where
  "wake_ios = [speech [1] 0 9000, speech [2] 0 9000, speech [3] 0 9000, speech [4] 0 9000,
     speech [5] 0 9000, speech [6] 0 9000, speech [7] 0 9000, speech [8] 0 9000,
     speech [9] 0 9000, speech [10] 0 9000, speech [11] 0 9000, speech [12] 0 9000,
     speech [13] 0 9000, speech [14] 0 9000, speech [15] 0 9000, speech [16] 0.9 10000]"



definition recording_detector :: WakeWordDetector where
  "recording_detector = fst (the (processAudioChunks primed_detector wake_chunks wake_ios))"


definition failing :: "params \<Rightarrow> handler_outcome" where
  "failing ps = Throws (Error ''No results found'')"

definition proposes_play :: fc_io where
  "proposes_play =
     \<lparr>io_load = None,
      io_generate = Inr ''model output'',
      io_json = (\<lambda>text. Some \<lparr>func = Some ''play_youtube'', parameters = [(''query'', ''some music'')],
                              response = Some ''Playing some music for you'',
                              executed = None, toolResult = None, error = None\<rparr>)\<rparr>"


definition broken_music_pipeline :: VoicePipeline where
  "broken_music_pipeline =
     fst (onWakeWordDetected
       (fst (pl_start
          (registerTool (new_VoicePipeline no_pipeline_options) ''play_youtube''
             ''Play a song or video from YouTube'' (Some failing))
          (\<lambda>src. 0) 0 all_loaded)))"

definition heard_play :: cycle_io where
  "heard_play = \<lparr>io_transcribe = Inr (Some ''play some music''), io_process = proposes_play,
                 io_speak = None\<rparr>"

definition speak_fails :: cycle_io where
  "speak_fails = heard_play\<lparr>io_speak := Some (Error ''Audio device error'')\<rparr>"


text \<open>
  The pipeline built with no options after \<open>start\<close> on source 0, after a second
  \<open>start\<close> on source 1, and after \<open>start\<close> and the wake word (its detector,
  primed, has processed the sixteen windows and emitted \<open>detected\<close>).
\<close>

definition started_once :: "VoicePipeline \<times> listeners" where
  "started_once =
     (case pl_start (new_VoicePipeline no_pipeline_options) (\<lambda>src. 0) 0 all_loaded of
        (p, ls, evs, err) \<Rightarrow> (p, ls))"

definition started_twice :: "VoicePipeline \<times> listeners" where
  "started_twice =
     (case pl_start (fst started_once) (snd started_once) 1 all_loaded of
        (p, ls, evs, err) \<Rightarrow> (p, ls))"

definition recording_pipeline :: VoicePipeline where
  "recording_pipeline =
     fst (onWakeWordDetected ((fst started_once)\<lparr>wakeWordDetector := Some recording_detector\<rparr>))"

section \<open>Properties of VADProcessor\<close>

lemma process_step:
  assumes "negativeThreshold v \<le> positiveThreshold v" and "process v r = (v', s)"
  shows "(vad_output r \<ge> positiveThreshold v \<longrightarrow> isSpeaking v' \<and> negativeSamples v' = 0)
       \<and> (vad_output r < negativeThreshold v \<longrightarrow>
            negativeSamples v' = negativeSamples v + 1
            \<and> (isSpeaking v' \<longleftrightarrow> isSpeaking v \<and> negativeSamples v' < negativeCount v))
       \<and> (negativeThreshold v \<le> vad_output r \<and> vad_output r < positiveThreshold v \<longrightarrow>
            isSpeaking v' = isSpeaking v \<and> negativeSamples v' = negativeSamples v)
       \<and> vs_isSpeaking s = isSpeaking v'
       \<and> (justStarted s \<longleftrightarrow> isSpeaking v' \<and> \<not> isSpeaking v)
       \<and> (justEnded s \<longleftrightarrow> \<not> isSpeaking v' \<and> isSpeaking v)"
  using assms by (auto simp: process_def Let_def split: if_splits)

lemma process_config:
  "positiveThreshold (fst (process v r)) = positiveThreshold v
   \<and> negativeThreshold (fst (process v r)) = negativeThreshold v
   \<and> negativeCount (fst (process v r)) = negativeCount v"
  by (simp add: process_def Let_def)

lemma process_all_config:
  "positiveThreshold (fst (process_all v rs)) = positiveThreshold v
   \<and> negativeThreshold (fst (process_all v rs)) = negativeThreshold v
   \<and> negativeCount (fst (process_all v rs)) = negativeCount v"
proof (induction rs arbitrary: v)
  case Nil
  show ?case by simp
next
  case (Cons r rs)
  show ?case
    using Cons.IH [of "fst (process v r)"] process_config [of v r]
    by (simp add: split_beta Let_def)
qed

lemma process_all_snoc:
  "process_all v (rs @ [r]) =
     (fst (process (fst (process_all v rs)) r),
      snd (process_all v rs) @ [snd (process (fst (process_all v rs)) r)])"
  by (induction rs arbitrary: v) (simp_all add: split_beta Let_def)

lemma process_all_nth:
  "i < length rs \<Longrightarrow>
   snd (process_all v rs) ! i = snd (process (fst (process_all v (take i rs))) (rs ! i))"
proof (induction rs arbitrary: v i)
  case Nil
  then show ?case by simp
next
  case (Cons r rs)
  show ?case
  proof (cases i)
    case 0
    then show ?thesis by (simp add: split_beta Let_def)
  next
    case (Suc j)
    with Cons.prems have "j < length rs" by simp
    from Cons.IH [OF this, of "fst (process v r)"] Suc show ?thesis
      by (simp add: split_beta Let_def)
  qed
qed

text \<open>
  Claim C2. Feed any sequence \<open>rs\<close> of model outputs to \<open>process\<close>, on a processor whose
  negative threshold is not above its positive threshold, and look at call \<open>i\<close>:
  \<open>before\<close> and \<open>after\<close> are the processor before and after it, \<open>s\<close> what it returned,
  \<open>p\<close> its score. A score at or above the positive threshold sets \<open>isSpeaking\<close> and
  zeroes the negative streak; a score below the negative threshold adds one to the
  streak, and \<open>isSpeaking\<close> survives only if it held before and the streak is still
  short of \<open>negativeCount\<close>; a score in between changes neither; \<open>justStarted\<close> and
  \<open>justEnded\<close> are true exactly when \<open>isSpeaking\<close> flipped in this call.
\<close>

theorem vad_hysteresis:
  assumes thresholds: "negativeThreshold v \<le> positiveThreshold v"
    and i: "i < length rs"
  shows "(let before = fst (process_all v (take i rs));
              after = fst (process_all v (take (Suc i) rs));
              s = snd (process_all v rs) ! i;
              p = vad_output (rs ! i)
          in (p \<ge> positiveThreshold v \<longrightarrow> isSpeaking after \<and> negativeSamples after = 0)
           \<and> (p < negativeThreshold v \<longrightarrow>
                negativeSamples after = negativeSamples before + 1
                \<and> (isSpeaking after \<longleftrightarrow>
                     isSpeaking before \<and> negativeSamples after < negativeCount v))
           \<and> (negativeThreshold v \<le> p \<and> p < positiveThreshold v \<longrightarrow>
                isSpeaking after = isSpeaking before
                \<and> negativeSamples after = negativeSamples before)
           \<and> vs_isSpeaking s = isSpeaking after
           \<and> (justStarted s \<longleftrightarrow> isSpeaking after \<and> \<not> isSpeaking before)
           \<and> (justEnded s \<longleftrightarrow> \<not> isSpeaking after \<and> isSpeaking before))"
proof -
  define before where "before = fst (process_all v (take i rs))"
  define after where "after = fst (process_all v (take (Suc i) rs))"
  define s where "s = snd (process_all v rs) ! i"
  have cfg: "positiveThreshold before = positiveThreshold v"
    "negativeThreshold before = negativeThreshold v" "negativeCount before = negativeCount v"
    using process_all_config [of v "take i rs"] by (simp_all add: before_def)
  have "take (Suc i) rs = take i rs @ [rs ! i]"
    using i by (simp add: take_Suc_conv_app_nth)
  then have a: "after = fst (process before (rs ! i))"
    by (simp add: after_def before_def process_all_snoc)
  have b: "s = snd (process before (rs ! i))"
    using process_all_nth [OF i, of v] by (simp add: s_def before_def)
  have step: "process before (rs ! i) = (after, s)"
    using a b by simp
  from process_step [OF _ step] thresholds cfg show ?thesis
    unfolding Let_def before_def [symmetric] after_def [symmetric] s_def [symmetric]
    by simp
qed

lemmas vad_eval = example_vad_def example_scores_def new_VADProcessor_def no_vad_options_def
  or_default_def process_def score_def Let_def

theorem vad_hysteresis_witness:
  "negativeThreshold example_vad \<le> positiveThreshold example_vad
   \<and> 10 < length example_scores
   \<and> justStarted (snd (process_all example_vad example_scores) ! 1)
   \<and> isSpeaking (fst (process_all example_vad (take 3 example_scores)))
   \<and> negativeSamples (fst (process_all example_vad (take 3 example_scores))) = 0
   \<and> \<not> justEnded (snd (process_all example_vad example_scores) ! 9)
   \<and> justEnded (snd (process_all example_vad example_scores) ! 10)
   \<and> negativeSamples (fst (process_all example_vad (take 11 example_scores))) = 8"
proof -
  have t: "negativeThreshold example_vad \<le> positiveThreshold example_vad"
    by (simp add: vad_eval)
  have l: "1 < length example_scores" "2 < length example_scores" "9 < length example_scores"
    "10 < length example_scores"
    by (simp_all add: example_scores_def)
  note vad_hysteresis [OF t l(1)] vad_hysteresis [OF t l(2)] vad_hysteresis [OF t l(3)]
    vad_hysteresis [OF t l(4)]
  with t l(4) show ?thesis
    by (simp add: vad_eval cong: let_weak_cong prod.case_cong_weak)
qed

section \<open>Properties of the constructors\<close>

text \<open>
  Claim C9. A numeric option passed as 0 is falsy, so \<open>||\<close> takes the default: the
  processor or detector built is the one built with the option omitted. A positive
  threshold of 0 gives 0.65, a negative threshold of 0 gives 0.4, a negative count of 0
  gives 8, a detector threshold of 0 gives 0.5 and a cooldown of 0 gives 2000.
\<close>

theorem zero_option_is_default:
  "new_VADProcessor (vo\<lparr>opt_positiveThreshold := Some 0\<rparr>)
     = new_VADProcessor (vo\<lparr>opt_positiveThreshold := None\<rparr>)
   \<and> new_VADProcessor (vo\<lparr>opt_negativeThreshold := Some 0\<rparr>)
     = new_VADProcessor (vo\<lparr>opt_negativeThreshold := None\<rparr>)
   \<and> new_VADProcessor (vo\<lparr>opt_negativeCount := Some 0\<rparr>)
     = new_VADProcessor (vo\<lparr>opt_negativeCount := None\<rparr>)
   \<and> positiveThreshold (new_VADProcessor (vo\<lparr>opt_positiveThreshold := Some 0\<rparr>)) = 0.65
   \<and> negativeThreshold (new_VADProcessor (vo\<lparr>opt_negativeThreshold := Some 0\<rparr>)) = 0.4
   \<and> negativeCount (new_VADProcessor (vo\<lparr>opt_negativeCount := Some 0\<rparr>)) = 8
   \<and> new_WakeWordDetector (wo\<lparr>opt_threshold := Some 0\<rparr>)
     = new_WakeWordDetector (wo\<lparr>opt_threshold := None\<rparr>)
   \<and> new_WakeWordDetector (wo\<lparr>opt_cooldownMs := Some 0\<rparr>)
     = new_WakeWordDetector (wo\<lparr>opt_cooldownMs := None\<rparr>)
   \<and> threshold (new_WakeWordDetector (wo\<lparr>opt_threshold := Some 0\<rparr>)) = 0.5
   \<and> cooldownMs (new_WakeWordDetector (wo\<lparr>opt_cooldownMs := Some 0\<rparr>)) = 2000"
  by (simp add: new_VADProcessor_def new_WakeWordDetector_def or_default_def)

section \<open>Properties of pause and resume\<close>

text \<open>
  Claim C10. From any detector state, \<open>resume\<close> leaves \<open>isRecording\<close> false and
  \<open>recordingBuffer\<close> null, and the detector it returns does not depend on the recording
  session that was open: the captured audio is gone, so nothing later can emit it.
\<close>

theorem resume_discards_recording:
  "isRecording (resume d) = False
   \<and> recordingBuffer (resume d) = None
   \<and> resume (d\<lparr>isRecording := b, recordingBuffer := r\<rparr>) = resume d"
  by (simp add: resume_def)

section \<open>Properties of the frame batcher\<close>

lemma started_detector_reached:
  "initialize (new_WakeWordDetector no_detector_options) None None
     = Inr ((new_WakeWordDetector no_detector_options)\<lparr>isInitialized := True\<rparr>)
   \<and> start ((new_WakeWordDetector no_detector_options)\<lparr>isInitialized := True\<rparr>) ls 0
     = Inr (started_detector, ls(0 := ls 0 + 1))"
  by (simp add: initialize_def start_def started_detector_def new_WakeWordDetector_def
      no_detector_options_def or_default_str_def WAKE_WORD_MODELS_def)

lemma runVAD_frame:
  "audioBuffer (fst (runVAD d io)) = audioBuffer d
   \<and> batchSamples (fst (runVAD d io)) = batchSamples d
   \<and> batchInterval (fst (runVAD d io)) = batchInterval d
   \<and> isRunning (fst (runVAD d io)) = isRunning d
   \<and> isPaused (fst (runVAD d io)) = isPaused d"
  by (simp add: runVAD_def split_beta Let_def split: option.splits sum.splits)

lemma detectStep_frame:
  "audioBuffer (fst (detectStep d a io)) = audioBuffer d
   \<and> batchSamples (fst (detectStep d a io)) = batchSamples d
   \<and> batchInterval (fst (detectStep d a io)) = batchInterval d
   \<and> isRunning (fst (detectStep d a io)) = isRunning d
   \<and> isPaused (fst (detectStep d a io)) = isPaused d"
  by (simp add: detectStep_def Let_def split: option.splits)

lemma pushEmbedding_frame:
  "audioBuffer (pushEmbedding d e) = audioBuffer d
   \<and> batchSamples (pushEmbedding d e) = batchSamples d
   \<and> batchInterval (pushEmbedding d e) = batchInterval d
   \<and> isRunning (pushEmbedding d e) = isRunning d
   \<and> isPaused (pushEmbedding d e) = isPaused d"
  by (simp add: pushEmbedding_def Let_def)

lemma processBatch_frame:
  "audioBuffer (fst (processBatch d a io)) = audioBuffer d
   \<and> batchSamples (fst (processBatch d a io)) = batchSamples d
   \<and> batchInterval (fst (processBatch d a io)) = batchInterval d
   \<and> isRunning (fst (processBatch d a io)) = isRunning d
   \<and> isPaused (fst (processBatch d a io)) = isPaused d"
  using runVAD_frame [of d io]
  by (cases "runVAD d io")
     (simp add: processBatch_def Let_def split_beta detectStep_frame pushEmbedding_frame
           split: option.splits)

lemma batch_loop_spec:
  assumes "0 < batchInterval d" "batchInterval d \<le> batchSamples d"
    and "batch_loop d ios = Some (d', tr, ios')"
  shows "map fst tr =
           map (\<lambda>k. take (batchSamples d) (drop (k * batchInterval d) (audioBuffer d)))
             [0..<length tr]
       \<and> (\<forall>k<length tr. k * batchInterval d + batchSamples d \<le> length (audioBuffer d))
       \<and> length tr * batchInterval d \<le> length (audioBuffer d)
       \<and> audioBuffer d' = drop (length tr * batchInterval d) (audioBuffer d)
       \<and> length (audioBuffer d') < batchSamples d
       \<and> batchSamples d' = batchSamples d \<and> batchInterval d' = batchInterval d
       \<and> isRunning d' = isRunning d \<and> isPaused d' = isPaused d
       \<and> length ios = length tr + length ios'"
  using assms
proof (induction ios arbitrary: d d' tr ios')
  case Nil
  then show ?case by (simp split: if_splits)
next
  case (Cons io ios)
  show ?case
  proof (cases "batchSamples d \<le> length (audioBuffer d)")
    case False
    with Cons.prems show ?thesis by simp
  next
    case True
    define d1 where "d1 = d\<lparr>audioBuffer := drop (batchInterval d) (audioBuffer d)\<rparr>"
    define batch where "batch = take (batchSamples d) (audioBuffer d)"
    define d2 where "d2 = fst (processBatch d1 batch io)"
    define evs where "evs = snd (processBatch d1 batch io)"
    have d2: "audioBuffer d2 = drop (batchInterval d) (audioBuffer d)"
      "batchSamples d2 = batchSamples d" "batchInterval d2 = batchInterval d"
      "isRunning d2 = isRunning d" "isPaused d2 = isPaused d"
      using processBatch_frame [of d1 batch io] by (simp_all add: d2_def d1_def)
    from Cons.prems(3) True obtain tr2 where
      rec: "batch_loop d2 ios = Some (d', tr2, ios')" and tr: "tr = (batch, evs) # tr2"
      by (auto simp: Let_def split_beta d1_def batch_def d2_def evs_def split: option.splits)
    have pre: "0 < batchInterval d2" "batchInterval d2 \<le> batchSamples d2"
      using Cons.prems d2 by simp_all
    note IH = Cons.IH [OF pre rec, unfolded d2]
    have HW: "batchInterval d \<le> length (audioBuffer d)"
      using True Cons.prems(2) by simp
    have w: "map fst tr =
           map (\<lambda>k. take (batchSamples d) (drop (k * batchInterval d) (audioBuffer d)))
             [0..<length tr]"
      using IH by (simp add: tr map_upt_Suc batch_def add.commute del: upt_Suc)
    have b: "\<forall>k<length tr. k * batchInterval d + batchSamples d \<le> length (audioBuffer d)"
    proof (intro allI impI)
      fix k assume k: "k < length tr"
      show "k * batchInterval d + batchSamples d \<le> length (audioBuffer d)"
      proof (cases k)
        case 0
        then show ?thesis using True by simp
      next
        case (Suc j)
        with k tr have "j < length tr2" by simp
        with IH have "j * batchInterval d + batchSamples d
                        \<le> length (audioBuffer d) - batchInterval d" by simp
        with HW Suc show ?thesis by simp
      qed
    qed
    have i3: "length tr2 * batchInterval d \<le> length (drop (batchInterval d) (audioBuffer d))"
      and i4: "audioBuffer d' = drop (length tr2 * batchInterval d) (drop (batchInterval d) (audioBuffer d))"
      and i5: "length (audioBuffer d') < batchSamples d"
      and i6: "batchSamples d' = batchSamples d" "batchInterval d' = batchInterval d"
        "isRunning d' = isRunning d" "isPaused d' = isPaused d"
      and i7: "length ios = length tr2 + length ios'"
      using IH by blast+
    have n: "length tr * batchInterval d \<le> length (audioBuffer d)"
      using i3 HW unfolding tr by simp
    have k: "length tr2 * batchInterval d + batchInterval d = length tr * batchInterval d"
      by (simp add: tr)
    have buf: "audioBuffer d' = drop (length tr * batchInterval d) (audioBuffer d)"
      unfolding i4 drop_drop k ..
    have len: "length (io # ios) = length tr + length ios'"
      using i7 by (simp add: tr)
    from w b n buf i5 i6 len show ?thesis by blast
  qed
qed

lemma batch_loop_total:
  assumes "0 < batchInterval d" "batchInterval d \<le> batchSamples d"
    and "length (audioBuffer d) < batchSamples d + batchInterval d * length ios"
  shows "\<exists>r. batch_loop d ios = Some r"
  using assms
proof (induction ios arbitrary: d)
  case Nil
  then show ?case by simp
next
  case (Cons io ios)
  show ?case
  proof (cases "batchSamples d \<le> length (audioBuffer d)")
    case False
    then show ?thesis by simp
  next
    case True
    define d1 where "d1 = d\<lparr>audioBuffer := drop (batchInterval d) (audioBuffer d)\<rparr>"
    define batch where "batch = take (batchSamples d) (audioBuffer d)"
    define d2 where "d2 = fst (processBatch d1 batch io)"
    have d2: "audioBuffer d2 = drop (batchInterval d) (audioBuffer d)"
      "batchSamples d2 = batchSamples d" "batchInterval d2 = batchInterval d"
      using processBatch_frame [of d1 batch io] by (simp_all add: d2_def d1_def)
    have "length (audioBuffer d2) < batchSamples d2 + batchInterval d2 * length ios"
      using Cons.prems True by (simp add: d2)
    with Cons.IH [of d2] Cons.prems d2 obtain r where "batch_loop d2 ios = Some r"
      by auto
    then show ?thesis
      using True
      by (cases r) (simp add: Let_def split_beta d1_def [symmetric] batch_def [symmetric]
                         d2_def [symmetric])
  qed
qed


lemma processAudioChunk_running:
  assumes "isRunning d" "\<not> isPaused d"
  shows "\<exists>d2. processAudioChunk d ch ios = batch_loop d2 ios
            \<and> audioBuffer d2 = audioBuffer d @ chunk_samples ch
            \<and> batchSamples d2 = batchSamples d \<and> batchInterval d2 = batchInterval d
            \<and> isRunning d2 = isRunning d \<and> isPaused d2 = isPaused d"
proof (cases "isRecording d")
  case True
  let ?d2 = "d\<lparr>audioBuffer := audioBuffer d @ chunk_samples ch,
                 recordingBuffer :=
                   Some ((case recordingBuffer d of None \<Rightarrow> [] | Some r \<Rightarrow> r) @ chunk_samples ch)\<rparr>"
  have "processAudioChunk d ch ios = batch_loop ?d2 ios"
    using assms True by (simp add: processAudioChunk_def Let_def)
  then show ?thesis
    by (intro exI [of _ ?d2]) simp
next
  case False
  let ?d2 = "d\<lparr>audioBuffer := audioBuffer d @ chunk_samples ch\<rparr>"
  have "processAudioChunk d ch ios = batch_loop ?d2 ios"
    using assms False by (simp add: processAudioChunk_def Let_def)
  then show ?thesis
    by (intro exI [of _ ?d2]) simp
qed

lemma windows_append:
  assumes "\<forall>k<n1. k * H + W \<le> length xs" and "n1 * H \<le> length xs"
  shows "map (\<lambda>k. take W (drop (k * H) xs)) [0..<n1]
           @ map (\<lambda>k. take W (drop (k * H) (drop (n1 * H) xs @ ys))) [0..<n2]
         = map (\<lambda>k. take W (drop (k * H) (xs @ ys))) [0..<n1 + n2]"
proof -
  define zs where "zs = xs @ ys"
  have e: "drop (n1 * H) xs @ ys = drop (n1 * H) zs"
    using assms(2) by (simp add: zs_def)
  have a: "take W (drop (k * H) xs) = take W (drop (k * H) zs)" if "k < n1" for k
  proof -
    from assms(1) that have "k * H + W \<le> length xs" by blast
    then show ?thesis by (simp add: zs_def)
  qed
  have "map (\<lambda>k. take W (drop (k * H) xs)) [0..<n1]
           @ map (\<lambda>k. take W (drop (k * H) (drop (n1 * H) zs))) [0..<n2]
         = map (\<lambda>k. take W (drop (k * H) zs)) [0..<n1 + n2]" (is "?l = ?r")
  proof (rule nth_equalityI)
    show "length ?l = length ?r" by simp
  next
    fix i assume "i < length ?l"
    then have i: "i < n1 + n2" by simp
    show "?l ! i = ?r ! i"
    proof (cases "i < n1")
      case True
      then show ?thesis using a [OF True] i by (simp add: nth_append)
    next
      case False
      then have "(i - n1) * H + n1 * H = i * H"
        by (simp add: add_mult_distrib [symmetric])
      moreover from False i have "i - n1 < n2" by simp
      ultimately show ?thesis using False i by (simp add: nth_append)
    qed
  qed
  then show ?thesis unfolding e zs_def .
qed

lemma processAudioChunks_windows:
  assumes "isRunning d" "\<not> isPaused d"
    and "0 < batchInterval d" "batchInterval d \<le> batchSamples d"
    and "length (audioBuffer d) < batchSamples d"
    and "length (audioBuffer d @ concat (map chunk_samples chunks))
           < batchSamples d + batchInterval d * length ios"
  shows "\<exists>d' tr ios'. processAudioChunks d chunks ios = Some (d', tr, ios')
     \<and> map fst tr =
           map (\<lambda>k. take (batchSamples d)
                      (drop (k * batchInterval d)
                         (audioBuffer d @ concat (map chunk_samples chunks))))
             [0..<length tr]
     \<and> (\<forall>k<length tr. k * batchInterval d + batchSamples d
            \<le> length (audioBuffer d @ concat (map chunk_samples chunks)))
     \<and> length tr * batchInterval d \<le> length (audioBuffer d @ concat (map chunk_samples chunks))
     \<and> audioBuffer d' =
          drop (length tr * batchInterval d) (audioBuffer d @ concat (map chunk_samples chunks))
     \<and> length (audioBuffer d') < batchSamples d
     \<and> length ios = length tr + length ios'"
  using assms
proof (induction chunks arbitrary: d ios)
  case Nil
  then show ?case by simp
next
  case (Cons ch chs)
  define W where "W = batchSamples d"
  define H where "H = batchInterval d"
  define xs where "xs = audioBuffer d @ chunk_samples ch"
  define ys where "ys = concat (map chunk_samples chs)"
  have stream: "audioBuffer d @ concat (map chunk_samples (ch # chs)) = xs @ ys"
    by (simp add: xs_def ys_def)
  from processAudioChunk_running [OF Cons.prems(1,2), of ch ios] obtain d0 where
    d0: "processAudioChunk d ch ios = batch_loop d0 ios" "audioBuffer d0 = xs"
      "batchSamples d0 = W" "batchInterval d0 = H" "isRunning d0" "\<not> isPaused d0"
    using Cons.prems(1,2) by (auto simp: xs_def W_def H_def)
  have HW: "0 < H" "H \<le> W"
    using Cons.prems(3,4) by (simp_all add: H_def W_def)
  have fuel: "length xs + length ys < W + H * length ios"
    using Cons.prems(6) by (simp add: xs_def ys_def W_def H_def)
  then have "length (audioBuffer d0) < batchSamples d0 + batchInterval d0 * length ios"
    by (simp add: d0)
  from batch_loop_total [OF _ _ this] HW d0 obtain d1 tr1 ios1 where
    loop: "batch_loop d0 ios = Some (d1, tr1, ios1)"
    by (metis prod_cases3)
  have pre0: "0 < batchInterval d0" "batchInterval d0 \<le> batchSamples d0"
    using HW d0 by simp_all
  note sp = batch_loop_spec [OF pre0 loop, unfolded d0(2,3,4)]
  from sp d0(5,6) have s1:
    "map fst tr1 = map (\<lambda>k. take W (drop (k * H) xs)) [0..<length tr1]"
    "\<forall>k<length tr1. k * H + W \<le> length xs"
    "length tr1 * H \<le> length xs"
    "audioBuffer d1 = drop (length tr1 * H) xs"
    "length (audioBuffer d1) < W"
    "batchSamples d1 = W" "batchInterval d1 = H" "isRunning d1" "\<not> isPaused d1"
    "length ios = length tr1 + length ios1"
    by blast+
  have "length xs - length tr1 * H + length ys < W + H * length ios1"
  proof -
    have "H * length ios = length tr1 * H + H * length ios1"
      using s1(10) by (simp add: add_mult_distrib2 mult.commute)
    with fuel s1(3) show ?thesis by linarith
  qed
  then have fuel1: "length (audioBuffer d1 @ concat (map chunk_samples chs))
           < batchSamples d1 + batchInterval d1 * length ios1"
    by (simp add: s1 ys_def)
  from Cons.IH [OF s1(8,9) _ _ _ fuel1] HW s1 obtain d2 tr2 ios2 where
    rest: "processAudioChunks d1 chs ios1 = Some (d2, tr2, ios2)"
    and s2: "map fst tr2 =
           map (\<lambda>k. take W (drop (k * H) (drop (length tr1 * H) xs @ ys))) [0..<length tr2]"
      "\<forall>k<length tr2. k * H + W \<le> length (drop (length tr1 * H) xs @ ys)"
      "length tr2 * H \<le> length (drop (length tr1 * H) xs @ ys)"
      "audioBuffer d2 = drop (length tr2 * H) (drop (length tr1 * H) xs @ ys)"
      "length (audioBuffer d2) < W"
      "length ios1 = length tr2 + length ios2"
    by (auto simp: ys_def)
  have run: "processAudioChunks d (ch # chs) ios = Some (d2, tr1 @ tr2, ios2)"
    by (simp add: d0 loop rest)
  have eq: "drop (length tr1 * H) xs @ ys = drop (length tr1 * H) (xs @ ys)"
    using s1(3) by simp
  have w: "map fst (tr1 @ tr2)
             = map (\<lambda>k. take W (drop (k * H) (xs @ ys))) [0..<length (tr1 @ tr2)]"
  proof -
    have "map fst (tr1 @ tr2) = map fst tr1 @ map fst tr2" by simp
    also have "\<dots> = map (\<lambda>k. take W (drop (k * H) xs)) [0..<length tr1]
           @ map (\<lambda>k. take W (drop (k * H) (drop (length tr1 * H) xs @ ys))) [0..<length tr2]"
      using s1(1) s2(1) by (rule arg_cong2 [where f = "(@)"])
    also have "\<dots> = map (\<lambda>k. take W (drop (k * H) (xs @ ys))) [0..<length tr1 + length tr2]"
      by (rule windows_append [OF s1(2,3)])
    finally show ?thesis by (simp only: length_append)
  qed
  have b: "\<forall>k<length (tr1 @ tr2). k * H + W \<le> length (xs @ ys)"
  proof (intro allI impI)
    fix k assume k: "k < length (tr1 @ tr2)"
    show "k * H + W \<le> length (xs @ ys)"
    proof (cases "k < length tr1")
      case True
      with s1(2) show ?thesis by auto
    next
      case False
      then obtain j where j: "k = length tr1 + j" "j < length tr2"
        using k by (metis add_diff_inverse_nat length_append nat_add_left_cancel_less)
      with s2(2) have "j * H + W \<le> length xs - length tr1 * H + length ys" by simp
      with s1(3) j show ?thesis by (simp add: add_mult_distrib)
    qed
  qed
  have n: "length (tr1 @ tr2) * H \<le> length (xs @ ys)"
    using s2(3) s1(3) by (simp add: add_mult_distrib)
  have k: "length tr2 * H + length tr1 * H = length (tr1 @ tr2) * H"
    by (simp add: add_mult_distrib)
  have buf: "audioBuffer d2 = drop (length (tr1 @ tr2) * H) (xs @ ys)"
    unfolding s2(4) eq drop_drop k ..
  have len: "length ios = length (tr1 @ tr2) + length ios2"
    using s1(10) s2(6) by simp
  show ?case
    unfolding stream W_def [symmetric] H_def [symmetric]
    by (rule exI [of _ d2], rule exI [of _ "tr1 @ tr2"], rule exI [of _ ios2])
       (intro conjI run w b n buf s2(5) len)
qed


lemma window_count:
  fixes n H W L :: nat
  assumes "0 < H" and "\<forall>k<n. k * H + W \<le> L" and "L - n * H < W" and "n * H \<le> L"
  shows "n = (if L < W then 0 else (L - W) div H + 1)"
proof (cases n)
  case 0
  with assms(3) show ?thesis by simp
next
  case (Suc m)
  with assms(2) have m: "m * H + W \<le> L" by simp
  then have "m * H \<le> L - W" by simp
  then have lo: "m \<le> (L - W) div H"
    using assms(1) by (simp add: less_eq_div_iff_mult_less_eq)
  have "0 < n * H" using Suc assms(1) by simp
  with assms(3,4) have "L - W < n * H" by arith
  then have "(L - W) div H < n"
    using assms(1) by (simp add: div_less_iff_less_mult)
  with lo Suc have "(L - W) div H = m" by simp
  with m Suc show ?thesis by simp
qed

text \<open>
  Claim C3. Push any sequence of chunks into \<open>processAudioChunk\<close>, one call after the
  other, on a detector that is running and not paused, whose hop \<open>H = batchInterval\<close>
  is positive and at most the window length \<open>W = batchSamples\<close>, whose buffer holds
  less than one window, and with the engine outputs of every window at hand. Then the
  calls return, and with \<open>stream\<close> the buffered samples followed by the chunks'
  samples: window \<open>k\<close> is the \<open>W\<close> samples of the stream that start at offset
  \<open>k * H\<close>, it is a full window, there is one window per offset that leaves room for
  a full window, and the buffer left is the stream without its first \<open>n * H\<close> samples.
\<close>

theorem frame_batcher_windows:
  assumes "isRunning d" "\<not> isPaused d"
    and "0 < batchInterval d" "batchInterval d \<le> batchSamples d"
    and "length (audioBuffer d) < batchSamples d"
    and "length (audioBuffer d @ concat (map chunk_samples chunks))
           < batchSamples d + batchInterval d * length ios"
  shows "\<exists>d' tr ios'. processAudioChunks d chunks ios = Some (d', tr, ios')
     \<and> (let W = batchSamples d; H = batchInterval d;
             stream = audioBuffer d @ concat (map chunk_samples chunks);
             n = length tr
         in map fst tr = map (\<lambda>k. take W (drop (k * H) stream)) [0..<n]
          \<and> (\<forall>k<n. length (fst (tr ! k)) = W \<and> k * H + W \<le> length stream)
          \<and> n = (if length stream < W then 0 else (length stream - W) div H + 1)
          \<and> audioBuffer d' = drop (n * H) stream
          \<and> length (audioBuffer d') < W)"
proof -
  define W where "W = batchSamples d"
  define H where "H = batchInterval d"
  define stream where "stream = audioBuffer d @ concat (map chunk_samples chunks)"
  from processAudioChunks_windows [OF assms] obtain d' tr ios' where
    run: "processAudioChunks d chunks ios = Some (d', tr, ios')"
    and w: "map fst tr = map (\<lambda>k. take W (drop (k * H) stream)) [0..<length tr]"
    and b: "\<forall>k<length tr. k * H + W \<le> length stream"
    and n: "length tr * H \<le> length stream"
    and buf: "audioBuffer d' = drop (length tr * H) stream"
    and lt: "length (audioBuffer d') < W"
    unfolding W_def H_def stream_def by blast
  have len: "\<forall>k<length tr. length (fst (tr ! k)) = W \<and> k * H + W \<le> length stream"
  proof (intro allI impI)
    fix k assume k: "k < length tr"
    then have "fst (tr ! k) = map fst tr ! k" by simp
    also have "\<dots> = take W (drop (k * H) stream)"
      unfolding w using k by simp
    finally have "fst (tr ! k) = take W (drop (k * H) stream)" .
    moreover from b k have "k * H + W \<le> length stream" by blast
    ultimately show "length (fst (tr ! k)) = W \<and> k * H + W \<le> length stream"
      by simp
  qed
  have "length stream - length tr * H < W"
    using lt unfolding buf by simp
  from window_count [OF _ b this n] assms(3)
  have cnt: "length tr = (if length stream < W then 0 else (length stream - W) div H + 1)"
    by (simp add: H_def)
  show ?thesis
    unfolding Let_def W_def [symmetric] H_def [symmetric] stream_def [symmetric]
    by (rule exI [of _ d'], rule exI [of _ tr], rule exI [of _ ios'])
       (intro conjI run w len cnt buf lt)
qed

theorem frame_batcher_windows_witness:
  "isRunning started_detector \<and> \<not> isPaused started_detector
   \<and> 0 < batchInterval started_detector
   \<and> batchInterval started_detector \<le> batchSamples started_detector
   \<and> length (audioBuffer started_detector) < batchSamples started_detector
   \<and> (\<exists>d' tr ios'.
         processAudioChunks started_detector
           [Float32Array (replicate 17280 0), Float32Array (replicate 1000 0),
            Float32Array (replicate 920 0)]
           [silence, silence] = Some (d', tr, ios')
         \<and> length tr = 2
         \<and> fst (tr ! 0) = replicate 17280 0
         \<and> length (fst (tr ! 1)) = 17280
         \<and> length (audioBuffer d') = 15360)"
proof -
  let ?d = started_detector
  let ?chunks = "[Float32Array (replicate 17280 0), Float32Array (replicate 1000 0),
            Float32Array (replicate 920 (0::real))]"
  have cfg: "batchSamples ?d = 17280" "batchInterval ?d = 1920" "audioBuffer ?d = []"
    "isRunning ?d" "\<not> isPaused ?d"
    by (simp_all add: started_detector_def new_WakeWordDetector_def)
  have stream: "audioBuffer ?d @ concat (map chunk_samples ?chunks) = replicate 19200 0"
    by (simp add: cfg chunk_samples_def replicate_add [symmetric])
  have h: "0 < batchInterval ?d" "batchInterval ?d \<le> batchSamples ?d"
    "length (audioBuffer ?d) < batchSamples ?d"
    "length (audioBuffer ?d @ concat (map chunk_samples ?chunks))
       < batchSamples ?d + batchInterval ?d * length [silence, silence]"
    unfolding stream by (simp_all add: cfg)
  from frame_batcher_windows [OF cfg(4,5) h] obtain d' tr ios' where
    run: "processAudioChunks ?d ?chunks [silence, silence] = Some (d', tr, ios')"
    and spec: "(let W = batchSamples ?d; H = batchInterval ?d;
             stream = audioBuffer ?d @ concat (map chunk_samples ?chunks);
             n = length tr
         in map fst tr = map (\<lambda>k. take W (drop (k * H) stream)) [0..<n]
          \<and> (\<forall>k<n. length (fst (tr ! k)) = W \<and> k * H + W \<le> length stream)
          \<and> n = (if length stream < W then 0 else (length stream - W) div H + 1)
          \<and> audioBuffer d' = drop (n * H) stream
          \<and> length (audioBuffer d') < W)"
    by blast
  note spec' = spec [unfolded Let_def stream, unfolded cfg]
  from spec' have n: "length tr = 2" by simp
  from spec' have "map fst tr = map (\<lambda>k. take 17280 (drop (k * 1920) (replicate 19200 0))) [0..<length tr]"
    by blast
  then have "map fst tr ! 0 = replicate 17280 0"
    unfolding n by (simp add: numeral_2_eq_2)
  then have w0: "fst (tr ! 0) = replicate 17280 0"
    using n by simp
  from spec' have "\<forall>k<length tr. length (fst (tr ! k)) = 17280 \<and> k * 1920 + 17280 \<le> length (replicate 19200 (0::real))"
    by blast
  with n have w1: "length (fst (tr ! 1)) = 17280" by simp
  from spec' have "audioBuffer d' = drop (length tr * 1920) (replicate 19200 0)"
    by blast
  then have b: "length (audioBuffer d') = 15360"
    unfolding n by simp
  from cfg h run n w0 w1 b show ?thesis by blast
qed

section \<open>Properties of one analysis window\<close>

lemmas ctor_eval = new_WakeWordDetector_def new_VADProcessor_def no_detector_options_def
  or_default_def or_default_str_def or_false_def

lemmas det_eval = ctor_eval processBatch_def runVAD_def getState_def process_def
  pushEmbedding_def detectStep_def checkWakeWord_def score_def silence_def speech_def Let_def
  processAudioChunk_def chunk_samples_def started_detector_def hop_def window0_def
  primed_def primed_detector_def

text \<open>
  On a detector whose processor holds no LSTM state, as every detector is when it is
  constructed, \<open>getState\<close> throws in \<open>runVAD\<close> and \<open>processBatch\<close> catches the
  exception: the window changes nothing and emits nothing, and the processor still
  holds no state for the next window. Only a call of the processor's own \<open>process\<close>
  gives it one.
\<close>

lemma processBatch_without_state:
  assumes "h (vad d) = None"
  shows "processBatch d audio io = (d, [])"
  using assms by (simp add: processBatch_def runVAD_def getState_def)

lemma processBatches_without_state:
  assumes "h (vad d) = None"
  shows "processBatches d batches = (d, map (\<lambda>b. []) batches)"
  using assms by (induction batches) (auto simp: processBatch_without_state)

lemma constructed_without_state: "h (vad (new_WakeWordDetector options)) = None"
  by (simp add: new_WakeWordDetector_def new_VADProcessor_def)

lemma process_gives_state: "h (fst (process v r)) = Some (hn r)"
  by (simp add: process_def Let_def)






















section \<open>Properties of FunctionCaller and VoicePipeline\<close>

lemmas pl_eval = new_VoicePipeline_def no_pipeline_options_def registerTool_def
  pl_initialize_def pl_start_def pl_stop_def pl_pause_def pl_resume_def onWakeWordDetected_def
  all_loaded_def initialize_def start_def stop_def pause_def resume_def WAKE_WORD_MODELS_def
  new_FunctionCaller_def fc_initialize_def functionGemmaQuantized_def tts_stop_def

lemma executeTool_throws:
  assumes "func r = Some f" "f \<noteq> []" "lookup_tool (fc_tools fc) f = Some found"
    and "callHandler found (parameters r) = Throws e"
  shows "executeTool fc r =
           (case message e of
              Inl te \<Rightarrow> Inl te
            | Inr m \<Rightarrow>
                Inr (r\<lparr>executed := Some False, error := m,
                      response := Some (''Sorry, I had trouble with that. '' @ template m)\<rparr>))"
  using assms by (simp add: executeTool_def truthy_def)

lemma fc_process_tool_throws:
  assumes "fc_isInitialized fc"
    and "io_generate io = Inr text" "parseResponse (io_json io) text = r"
    and "func r = Some f" "f \<noteq> []" "lookup_tool (fc_tools fc) f = Some found"
    and "callHandler found (parameters r) = Throws e"
  shows "\<exists>res. fc_process fc txt io = (fc, Inr res) \<and> response res = Some (apology e)"
proof (cases "message e")
  case (Inr m)
  with executeTool_throws [OF assms(4-7)] assms(1,2,3) show ?thesis
    by (simp add: fc_process_def fc_initialize_def apology_def)
next
  case (Inl te)
  then have "\<exists>m. te = Error m"
    by (auto simp: message_def cannot_read_def split: js_error.splits)
  with Inl executeTool_throws [OF assms(4-7)] assms(1,2,3) show ?thesis
    by (auto simp: fc_process_def fc_initialize_def apology_def didNotUnderstand_def message_def)
qed

lemma apology_truthy: "truthy (Some (apology e))"
  by (simp add: truthy_def apology_def split: sum.splits)

text \<open>
  A cycle starts in state \<open>recording\<close> with a transcript that is not blank; the model
  proposes a name that the tool map resolves, and calling the handler throws \<open>e\<close>
  (or there is no handler to call). If speaking the reply does not itself fail, or the
  pipeline has an \<open>error\<close> listener, the cycle ends without rejecting, in state
  \<open>listening\<close> and not paused; the \<open>intent\<close> event carries a result whose response
  is the apology for \<open>e\<close>, and that apology is the text given to \<open>tts.speak\<close>.
\<close>

lemma tool_failure_contained:
  assumes "state p = Recording" and "stt p"
    and "io_transcribe io = Inr (Some t)" and "trim t \<noteq> []"
    and "functionCaller p = Some fc" and "fc_isInitialized fc"
    and "io_generate (io_process io) = Inr text"
    and "parseResponse (io_json (io_process io)) text = r"
    and "func r = Some f" and "f \<noteq> []" and "lookup_tool (fc_tools fc) f = Some found"
    and "callHandler found (parameters r) = Throws e"
    and "(tts p \<noteq> None \<and> io_speak io = None) \<or> 0 < errorListeners p"
  shows "\<exists>p' evs res.
           onSpeechEnd p audio io = (p', evs, None)
           \<and> state p' = Listening \<and> \<not> pl_isPaused p'
           \<and> Intent res \<in> set evs
           \<and> response res = Some (apology e)
           \<and> Speak (apology e) \<in> set evs"
proof -
  from assms(4) have t: "t \<noteq> []" by (auto simp: trim_def)
  from fc_process_tool_throws [OF assms(6-12), of t] obtain res where
    res: "fc_process fc t (io_process io) = (fc, Inr res)" "response res = Some (apology e)"
    by blast
  define p1 where "p1 = (pl_pause p)\<lparr>state := Transcribing\<rparr>"
  have p1: "functionCaller p1 = Some fc" "tts p1 = tts p" "errorListeners p1 = errorListeners p"
    "stt p1"
    using assms(2,5) by (simp_all add: p1_def pl_pause_def)
  have cp: "callProcess (p1\<lparr>state := Processing\<rparr>) t (io_process io)
              = (p1\<lparr>state := Processing, functionCaller := Some fc\<rparr>, Inr res)"
    by (simp add: callProcess_def p1 res)
  define p3 where "p3 = p1\<lparr>state := Processing, functionCaller := Some fc\<rparr>"
  define evs3 where
    "evs3 = [StateChange Transcribing, Transcript (Some t), StateChange Processing, Intent res]"
  have run: "onSpeechEnd p audio io = speakResponse p3 evs3 res io"
    using assms(1,3,4) t p1(4) cp
    by (simp add: onSpeechEnd_def Let_def p1_def [symmetric] truthy_def processIntent_def
          p3_def evs3_def)
  have p3: "tts p3 = tts p" "errorListeners p3 = errorListeners p"
    by (simp_all add: p3_def p1)
  have "\<exists>p' evs. speakResponse p3 evs3 res io = (p', evs, None)
           \<and> state p' = Listening \<and> \<not> pl_isPaused p'
           \<and> Intent res \<in> set evs \<and> Speak (apology e) \<in> set evs"
    using assms(13) apology_truthy [of e]
    by (auto simp: speakResponse_def res(2) Let_def callSpeak_def catchAndResume_def
          pl_resume_def p3 evs3_def split: option.splits)
  with run res(2) show ?thesis by auto
qed

lemma broken_music_pipeline_reached:
  "state broken_music_pipeline = Recording \<and> stt broken_music_pipeline
   \<and> functionCaller broken_music_pipeline =
       Some \<lparr>fc_debug = False, quantized = True,
              fc_tools = [''play_youtube'' \<mapsto> \<lparr>schema = ''Play a song or video from YouTube'',
                                              handler = Some failing\<rparr>],
              toolSchemas = Map.empty, fc_isInitialized = True\<rparr>
   \<and> tts broken_music_pipeline = Some \<lparr>speaker = False, isPlaying = False\<rparr>
   \<and> errorListeners broken_music_pipeline = 0
   \<and> \<not> pl_isPaused broken_music_pipeline"
  by (simp add: broken_music_pipeline_def pl_eval ctor_eval Let_def)

lemma tool_failure_contained_example:
  "state broken_music_pipeline = Recording
   \<and> trim ''play some music'' \<noteq> []
   \<and> (\<exists>p' evs res.
         onSpeechEnd broken_music_pipeline (Some window0) heard_play = (p', evs, None)
         \<and> state p' = Listening
         \<and> response res = Some ''Sorry, I had trouble with that. No results found''
         \<and> Intent res \<in> set evs
         \<and> Speak ''Sorry, I had trouble with that. No results found'' \<in> set evs)"
proof -
  let ?p = broken_music_pipeline
  let ?tool = "\<lparr>schema = ''Play a song or video from YouTube'', handler = Some failing\<rparr>"
  let ?fc = "\<lparr>fc_debug = False, quantized = True, fc_tools = [''play_youtube'' \<mapsto> ?tool],
              toolSchemas = Map.empty, fc_isInitialized = True\<rparr>"
  let ?r = "\<lparr>func = Some ''play_youtube'', parameters = [(''query'', ''some music'')],
                              response = Some ''Playing some music for you'',
                              executed = None, toolResult = None, error = None\<rparr>"
  have h: "state ?p = Recording" "stt ?p" "functionCaller ?p = Some ?fc"
    "tts ?p \<noteq> None"
    using broken_music_pipeline_reached by simp_all
  have io: "io_transcribe heard_play = Inr (Some ''play some music'')"
    "io_generate (io_process heard_play) = Inr ''model output''"
    "parseResponse (io_json (io_process heard_play)) ''model output'' = ?r"
    "io_speak heard_play = None"
    by (simp_all add: heard_play_def proposes_play_def parseResponse_def)
  have tr: "trim ''play some music'' \<noteq> []"
    by (simp add: trim_def is_space_def)
  have tool: "lookup_tool (fc_tools ?fc) ''play_youtube'' = Some (Entry ?tool)"
    by (simp add: lookup_tool_def)
  have throws: "callHandler (Entry ?tool) (parameters ?r) = Throws (Error ''No results found'')"
    by (simp add: callHandler_def failing_def)
  have s: "apology (Error ''No results found'') = ''Sorry, I had trouble with that. No results found''"
    by (simp add: apology_def message_def template_def)
  from tool_failure_contained [OF h(1,2) io(1) tr h(3) _ io(2,3) _ _ tool throws, of "Some window0"]
    h(4) io(4)
  have "\<exists>p' evs res.
           onSpeechEnd ?p (Some window0) heard_play = (p', evs, None)
           \<and> state p' = Listening \<and> \<not> pl_isPaused p'
           \<and> Intent res \<in> set evs
           \<and> response res = Some (apology (Error ''No results found''))
           \<and> Speak (apology (Error ''No results found'')) \<in> set evs"
    by simp
  then show ?thesis unfolding s using h(1) tr by blast
qed

text \<open>
  Claim C6, at an input where the code breaks it. The pipeline has \<open>play_youtube\<close>
  registered with a handler that throws and no listener for its \<open>error\<close> event; it
  is in state \<open>recording\<close>. The cycle hears "play some music", the model proposes
  \<open>play_youtube\<close>, the handler throws and the result carries the apology, which is
  given to \<open>tts.speak\<close>; \<open>tts.speak\<close> fails. In the \<open>catch\<close> block
  \<open>emit('error', error)\<close> throws for want of a listener, so that the \<open>resume\<close> after
  the block is not reached: the cycle rejects with the error, and the pipeline is left
  in state \<open>speaking\<close> and paused.
\<close>

theorem tool_failure_escapes:
  "state broken_music_pipeline = Recording
   \<and> errorListeners broken_music_pipeline = 0
   \<and> Speak ''Sorry, I had trouble with that. No results found''
       \<in> set (fst (snd (onSpeechEnd broken_music_pipeline (Some window0) speak_fails)))
   \<and> last (fst (snd (onSpeechEnd broken_music_pipeline (Some window0) speak_fails)))
       = ErrorEvent (Error ''Audio device error'')
   \<and> snd (snd (onSpeechEnd broken_music_pipeline (Some window0) speak_fails))
       = Some (Error ''Audio device error'')
   \<and> state (fst (onSpeechEnd broken_music_pipeline (Some window0) speak_fails)) = Speaking
   \<and> pl_isPaused (fst (onSpeechEnd broken_music_pipeline (Some window0) speak_fails))"
proof -
  let ?p = broken_music_pipeline
  let ?tool = "\<lparr>schema = ''Play a song or video from YouTube'', handler = Some failing\<rparr>"
  let ?fc = "\<lparr>fc_debug = False, quantized = True, fc_tools = [''play_youtube'' \<mapsto> ?tool],
              toolSchemas = Map.empty, fc_isInitialized = True\<rparr>"
  have h: "state ?p = Recording" "stt ?p" "functionCaller ?p = Some ?fc"
    "tts ?p = Some \<lparr>speaker = False, isPlaying = False\<rparr>" "errorListeners ?p = 0"
    using broken_music_pipeline_reached by simp_all
  have tr: "trim ''play some music'' \<noteq> []"
    by (simp add: trim_def is_space_def)
  have run: "onSpeechEnd ?p (Some window0) speak_fails =
     ((pl_pause ?p)\<lparr>state := Speaking\<rparr>,
      [StateChange Transcribing, Transcript (Some ''play some music''), StateChange Processing,
       Intent \<lparr>func = Some ''play_youtube'', parameters = [(''query'', ''some music'')],
               response = Some ''Sorry, I had trouble with that. No results found'',
               executed = Some False, toolResult = None, error = Some ''No results found''\<rparr>,
       StateChange Speaking, Speak ''Sorry, I had trouble with that. No results found'',
       ErrorEvent (Error ''Audio device error'')],
      Some (Error ''Audio device error''))"
    using tr
    by (simp add: onSpeechEnd_def processIntent_def speakResponse_def callProcess_def
        callSpeak_def catchAndResume_def unhandled_def fc_process_def fc_initialize_def
        executeTool_def lookup_tool_def callHandler_def parseResponse_def message_def
        template_def truthy_def failing_def speak_fails_def heard_play_def proposes_play_def
        pl_pause_def h Let_def)
  show ?thesis
    unfolding run using h(1,5) by (simp add: pl_pause_def)
qed

text \<open>At that input the cycle rejects and does not end in state \<open>listening\<close>.\<close>

theorem tool_failure_escapes_witness:
  "snd (snd (onSpeechEnd broken_music_pipeline (Some window0) speak_fails)) \<noteq> None
   \<and> state (fst (onSpeechEnd broken_music_pipeline (Some window0) speak_fails)) \<noteq> Listening"
  using tool_failure_escapes by simp






text \<open>
  Claim C5, as the code has it. From any pipeline state \<open>stop\<close> gives state \<open>idle\<close>;
  a detector, if there is one, is no longer running, its \<open>isRecording\<close> and
  \<open>recordingBuffer\<close> are as before, and the source it was last started on has no
  \<open>data\<close> listener left while every other source keeps its listeners.
\<close>

theorem stop_effects:
  assumes "pl_stop p ls = (p', ls', evs)"
  shows "state p' = Idle
       \<and> (wakeWordDetector p = None \<longrightarrow> wakeWordDetector p' = None \<and> ls' = ls)
       \<and> (\<forall>d. wakeWordDetector p = Some d \<longrightarrow>
             (\<exists>d'. wakeWordDetector p' = Some d'
                \<and> \<not> isRunning d'
                \<and> isRecording d' = isRecording d
                \<and> recordingBuffer d' = recordingBuffer d
                \<and> (\<forall>src. ls' src = (if audioSource d = Some src then 0 else ls src))))"
  using assms
  by (auto simp: pl_stop_def stop_def Let_def split: option.splits)

lemma recording_pipeline_reached:
  "wakeWordDetector (fst started_once) = Some started_detector
   \<and> state (fst started_once) = Listening
   \<and> snd started_once 0 = 1
   \<and> processAudioChunks primed_detector wake_chunks wake_ios \<noteq> None
   \<and> Detected \<in> set (snd (last (fst (snd (the (processAudioChunks primed_detector wake_chunks wake_ios))))))
   \<and> state recording_pipeline = Recording"
  by (simp add: started_once_def recording_pipeline_def pl_eval wake_chunks_def wake_ios_def
      det_eval cong: let_weak_cong prod.case_cong_weak)

text \<open>
  Against claim C5 as stated: \<open>stop\<close> on the pipeline that is recording (its
  detector primed) leaves state \<open>idle\<close> with \<open>isRecording\<close> true and 17280 samples
  in \<open>recordingBuffer\<close>;
  and \<open>stop\<close> after \<open>start\<close> on source 0 and \<open>start\<close> on source 1 leaves the
  listener on source 0.
\<close>

theorem stop_counterexample:
  "state (fst (pl_stop recording_pipeline (snd started_once))) = Idle
   \<and> isRecording (the (wakeWordDetector (fst (pl_stop recording_pipeline (snd started_once)))))
   \<and> map_option length
        (recordingBuffer (the (wakeWordDetector (fst (pl_stop recording_pipeline (snd started_once))))))
       = Some 17280
   \<and> fst (snd (pl_stop (fst started_twice) (snd started_twice))) 0 = 1"
  by (simp add: started_once_def started_twice_def recording_pipeline_def recording_detector_def
      pl_eval wake_chunks_def wake_ios_def det_eval cong: let_weak_cong prod.case_cong_weak)

theorem stop_effects_witness:
  "wakeWordDetector recording_pipeline = Some recording_detector
   \<and> state (fst (pl_stop recording_pipeline (snd started_once))) = Idle
   \<and> (\<exists>d'. wakeWordDetector (fst (pl_stop recording_pipeline (snd started_once))) = Some d'
         \<and> \<not> isRunning d'
         \<and> isRecording d' = isRecording recording_detector
         \<and> recordingBuffer d' = recordingBuffer recording_detector
         \<and> fst (snd (pl_stop recording_pipeline (snd started_once))) 0 = 0)"
proof -
  have d: "wakeWordDetector recording_pipeline = Some recording_detector"
    by (simp add: recording_pipeline_def onWakeWordDetected_def)
  have src: "audioSource recording_detector = Some 0"
    by (simp add: recording_detector_def wake_chunks_def wake_ios_def det_eval
        cong: let_weak_cong prod.case_cong_weak)
  obtain p' ls' evs where s: "pl_stop recording_pipeline (snd started_once) = (p', ls', evs)"
    by (cases "pl_stop recording_pipeline (snd started_once)")
  from stop_effects [OF s] d src show ?thesis
    by (auto simp: s)
qed

end
